theory Spec2Isabelle
  imports Complex_Main
begin

section \<open>Numbers and arrays\<close>

text \<open>
  The program computes with C++ \<open>double\<close>. The embedding reads a \<open>double\<close> as a real
  number: rounding, overflow and the values \<open>inf\<close> and \<open>NaN\<close> are not represented.
  A quotient whose divisor is \<open>0\<close>, and \<open>log\<close> or \<open>pow\<close> outside their domain, give
  \<open>inf\<close> or \<open>NaN\<close> in the program and some real number here; every theorem below
  that depends on the value of such a quotient has a hypothesis that keeps the divisor
  away from \<open>0\<close>.

  The counts \<open>nareas\<close>, \<open>maxage\<close> and \<open>pyears\<close> are \<open>double\<close> parameters that hold the
  dimensions of the arrays; they are natural numbers here. A vector, matrix or cube is
  the function from its indices to its cells, in Armadillo's order (row, column, slice).
  The arrays are taken to be as large as the program indexes them: the vectors by area
  have \<open>nareas\<close> elements, the matrices by age and year \<open>maxage\<close> rows and \<open>pyears\<close>
  columns, and the recruitment deviations reach position \<open>pyears - 2 + maxage\<close>. The
  bounds checks of Armadillo and Rcpp, which stop the program at an index out of
  range, are not modelled; cells outside the dimensions of an array are not part of it.
\<close>

type_synonym vec = "nat \<Rightarrow> real"
type_synonym mat = "nat \<Rightarrow> nat \<Rightarrow> real"
type_synonym cube = "nat \<Rightarrow> nat \<Rightarrow> nat \<Rightarrow> real"

definition zvec :: vec where
  "zvec = (\<lambda>_. 0)"

definition zmat :: mat where
  "zmat = (\<lambda>_ _. 0)"

definition zcube :: cube where
  "zcube = (\<lambda>_ _ _. 0)"

text \<open>\<open>X(i, j) = v\<close>\<close>

definition set_elem :: "mat \<Rightarrow> nat \<Rightarrow> nat \<Rightarrow> real \<Rightarrow> mat" where
  "set_elem X i j v = X(i := (X i)(j := v))"

text \<open>
  A loop \<open>for (A = 0; A < n; A++) v(A) = f(A)\<close> over a vector, where \<open>f\<close> does not read \<open>v\<close>.
\<close>

definition fill :: "nat \<Rightarrow> (nat \<Rightarrow> real) \<Rightarrow> vec \<Rightarrow> vec" where
  "fill n f v = fold (\<lambda>A w. w(A := f A)) [0..<n] v"

text \<open>
  \<open>C.subcube(0, y, A, m-1, y, A) = v\<close>: column \<open>y\<close> of slice \<open>A\<close>, rows \<open>0..m-1\<close>.
\<close>

definition set_col :: "cube \<Rightarrow> nat \<Rightarrow> nat \<Rightarrow> nat \<Rightarrow> vec \<Rightarrow> cube" where
  "set_col C m y A v = (\<lambda>a y' r. if a < m \<and> y' = y \<and> r = A then v a else C a y' r)"

text \<open>
  \<open>C.subcube(0, y, 0, m-1, y, n-1) = X\<close>: column \<open>y\<close> of every slice, from the \<open>m\<close> by \<open>n\<close>
  matrix \<open>X\<close>.
\<close>

definition set_year :: "cube \<Rightarrow> nat \<Rightarrow> nat \<Rightarrow> nat \<Rightarrow> mat \<Rightarrow> cube" where
  "set_year C m n y X = (\<lambda>a y' r. if a < m \<and> y' = y \<and> r < n then X a r else C a y' r)"

text \<open>\<open>C.elem(find(C > mx)).fill(mx)\<close>: every cell above \<open>mx\<close> becomes \<open>mx\<close>.\<close>

definition clamp :: "real \<Rightarrow> cube \<Rightarrow> cube" where
  "clamp mx C = (\<lambda>a y r. if C a y r > mx then mx else C a y r)"

text \<open>
  \<open>pow(x, y)\<close> of the C library where its value is a real number: \<open>pow(x, 0) = 1\<close> for
  every \<open>x\<close>, \<open>pow(0, y) = 0\<close> for \<open>y > 0\<close>, and \<open>exp(y log x)\<close> for \<open>x > 0\<close>.
\<close>

definition pow :: "real \<Rightarrow> real \<Rightarrow> real" where
  "pow x y = (if y = 0 then 1 else x powr y)"

section \<open>popdynOneTScpp: one annual time-step\<close>

text \<open>
  The body of the first loop, for area \<open>A\<close>: recruitment into age 0 under the two
  stock-recruit relationships, ageing with total mortality, and the plus group.
  \<open>Nnext\<close> is the matrix being filled.
\<close>

definition oneTS_area ::
  "nat \<Rightarrow> vec \<Rightarrow> mat \<Rightarrow> mat \<Rightarrow> real \<Rightarrow> real \<Rightarrow> vec \<Rightarrow> vec \<Rightarrow> vec \<Rightarrow> vec \<Rightarrow> real \<Rightarrow> int
    \<Rightarrow> nat \<Rightarrow> mat \<Rightarrow> mat" where
  "oneTS_area maxage SSBcurr Ncurr Zcurr PerrYr hs R0a SSBpR aR bR SRrel plusgroup A Nnext =
    (let N1 = (if SRrel = 1
               then set_elem Nnext 0 A
                      (PerrYr * (4 * R0a A * hs * SSBcurr A)
                        / (SSBpR A * R0a A * (1 - hs) + (5 * hs - 1) * SSBcurr A))
               else Nnext);
         N2 = (if SRrel = 2
               then set_elem N1 0 A (PerrYr * aR A * SSBcurr A * exp (- bR A * SSBcurr A))
               else N1);
         N3 = fold (\<lambda>age N. set_elem N age A (Ncurr (age - 1) A * exp (- Zcurr (age - 1) A)))
                [1..<maxage] N2
     in if plusgroup > 0
        then set_elem N3 (maxage - 1) A
               (N3 (maxage - 1) A / (1 - exp (- Zcurr (maxage - 1) A)))
        else N3)"

text \<open>
  The matrix \<open>Nnext\<close> when the first loop has run over all areas: the numbers-at-age
  before movement. \<open>arma::mat Nnext(maxage, nareas)\<close> allocates the matrix without
  assigning its cells; \<open>fresh\<close> is the content of the cells at that point, which the
  source does not determine.
\<close>

definition oneTS_Nnext ::
  "mat \<Rightarrow> nat \<Rightarrow> nat \<Rightarrow> vec \<Rightarrow> mat \<Rightarrow> mat \<Rightarrow> real \<Rightarrow> real \<Rightarrow> vec \<Rightarrow> vec \<Rightarrow> vec \<Rightarrow> vec
    \<Rightarrow> real \<Rightarrow> int \<Rightarrow> mat" where
  "oneTS_Nnext fresh nareas maxage SSBcurr Ncurr Zcurr PerrYr hs R0a SSBpR aR bR SRrel plusgroup =
    fold (oneTS_area maxage SSBcurr Ncurr Zcurr PerrYr hs R0a SSBpR aR bR SRrel plusgroup)
      [0..<nareas] fresh"

text \<open>
  The body of the movement loop, for one age: \<open>tempMat2(BB, AA)\<close> is what moves from
  area \<open>AA\<close> to area \<open>BB\<close>, and \<open>Nstore(age, BB)\<close> is the sum of row \<open>BB\<close>. The cells of
  \<open>tempMat2\<close> and of \<open>Nstore\<close> are all assigned before they are read; they start from
  \<open>zmat\<close> here.
\<close>

definition oneTS_move :: "nat \<Rightarrow> cube \<Rightarrow> mat \<Rightarrow> nat \<Rightarrow> mat \<Rightarrow> mat" where
  "oneTS_move nareas mov Nnext age Nstore =
    (let tempMat2 =
           fold (\<lambda>AA T. fold (\<lambda>BB T'. set_elem T' BB AA (Nnext age AA * mov age AA BB))
                          [0..<nareas] T)
             [0..<nareas] zmat
     in fold (\<lambda>BB S. set_elem S age BB (\<Sum>AA<nareas. tempMat2 BB AA)) [0..<nareas] Nstore)"

definition popdynOneTScpp ::
  "mat \<Rightarrow> nat \<Rightarrow> nat \<Rightarrow> vec \<Rightarrow> mat \<Rightarrow> mat \<Rightarrow> real \<Rightarrow> real \<Rightarrow> vec \<Rightarrow> vec \<Rightarrow> vec \<Rightarrow> vec
    \<Rightarrow> cube \<Rightarrow> real \<Rightarrow> int \<Rightarrow> mat" where
  "popdynOneTScpp fresh nareas maxage SSBcurr Ncurr Zcurr PerrYr hs R0a SSBpR aR bR mov SRrel
      plusgroup =
    (let Nnext = oneTS_Nnext fresh nareas maxage SSBcurr Ncurr Zcurr PerrYr hs R0a SSBpR aR bR
                   SRrel plusgroup
     in fold (oneTS_move nareas mov Nnext) [0..<maxage] zmat)"

section \<open>popdynCPP: the projection over \<open>pyears\<close> years\<close>

text \<open>
  An \<open>Rcpp::NumericVector\<close> is a handle on a vector that the caller shares: copying
  the handle does not copy the cells, \<open>clone\<close> does. The store is the list of these
  vectors and a handle is a position in it. The Armadillo arguments are copies the
  call owns, and are values.
\<close>

type_synonym store = "vec list"

definition clone :: "store \<Rightarrow> nat \<Rightarrow> nat \<times> store" where
  "clone h p = (length h, h @ [h ! p])"

text \<open>\<open>v(A) = c\<close> through the handle \<open>p\<close>, and \<open>v = w\<close> cell by cell.\<close>

definition store_elem :: "store \<Rightarrow> nat \<Rightarrow> nat \<Rightarrow> real \<Rightarrow> store" where
  "store_elem h p A c = h[p := (h ! p)(A := c)]"

definition store_vec :: "store \<Rightarrow> nat \<Rightarrow> vec \<Rightarrow> store" where
  "store_vec h p w = h[p := w]"

text \<open>The arguments of \<open>popdynCPP\<close>; \<open>R0c\<close>, \<open>SSBpRc\<close>, \<open>aRc\<close> and \<open>bRc\<close> are handles.\<close>

record inputs =
  nareas :: nat
  maxage :: nat
  Ncurr :: mat
  pyears :: nat
  M_age :: mat
  Asize_c :: vec
  MatAge :: mat
  WtAge :: mat
  Vuln :: mat
  Retc :: mat
  Prec :: vec
  movc :: "nat \<Rightarrow> cube"
  SRrelc :: real
  Effind :: vec
  Spat_targc :: real
  hc :: real
  R0c :: nat
  SSBpRc :: nat
  aRc :: nat
  bRc :: nat
  Qc :: real
  Fapic :: real
  maxF :: real
  MPA :: mat
  control :: int
  SSB0c :: real
  plusgroup :: int

text \<open>The local variables of \<open>popdynCPP\<close>, and the store.\<close>

record pstate =
  Narray :: cube
  Barray :: cube
  SSNarray :: cube
  SBarray :: cube
  VBarray :: cube
  Marray :: cube
  FMarray :: cube
  FMretarray :: cube
  Zarray :: cube
  tempVec :: vec
  fishdist :: vec
  R0c2 :: nat
  aRc2 :: nat
  bRc2 :: nat
  SSB0a :: vec
  R0 :: real
  heap :: store

text \<open>The loop over areas of the initial year.\<close>

definition init_area :: "inputs \<Rightarrow> nat \<Rightarrow> pstate \<Rightarrow> pstate" where
  "init_area x A s =
    (let B = set_col (Barray s) (maxage x) 0 A (\<lambda>a. Ncurr x a A * WtAge x a 0);
         SSN = set_col (SSNarray s) (maxage x) 0 A (\<lambda>a. Ncurr x a A * MatAge x a 0);
         SB = set_col (SBarray s) (maxage x) 0 A
                (\<lambda>a. Ncurr x a A * WtAge x a 0 * MatAge x a 0);
         VB = set_col (VBarray s) (maxage x) 0 A
                (\<lambda>a. Ncurr x a A * WtAge x a 0 * Vuln x a 0);
         M = set_col (Marray s) (maxage x) 0 A (\<lambda>a. M_age x a 0)
     in s\<lparr>Barray := B, SSNarray := SSN, SBarray := SB, VBarray := VB, Marray := M,
          tempVec := (tempVec s)(A := (\<Sum>a<maxage x. \<Sum>y<pyears x. VB a y A))\<rparr>)"

text \<open>The same loop in year \<open>y = yr + 1\<close> of the projection, from \<open>NextYrN\<close>.\<close>

definition year_area :: "inputs \<Rightarrow> nat \<Rightarrow> mat \<Rightarrow> nat \<Rightarrow> pstate \<Rightarrow> pstate" where
  "year_area x y NextYrN A s =
    (let B = set_col (Barray s) (maxage x) y A (\<lambda>a. NextYrN a A * WtAge x a y);
         SSN = set_col (SSNarray s) (maxage x) y A (\<lambda>a. NextYrN a A * MatAge x a y);
         SB = set_col (SBarray s) (maxage x) y A
                (\<lambda>a. NextYrN a A * WtAge x a y * MatAge x a y);
         VB = set_col (VBarray s) (maxage x) y A
                (\<lambda>a. NextYrN a A * WtAge x a y * Vuln x a y);
         M = set_col (Marray s) (maxage x) y A (\<lambda>a. M_age x a y)
     in s\<lparr>Barray := B, SSNarray := SSN, SBarray := SB, VBarray := VB, Marray := M,
          tempVec := (tempVec s)(A := (\<Sum>a<maxage x. VB a y A))\<rparr>)"

text \<open>\<open>pow(tempVec, Spat_targc) / sum(pow(tempVec, Spat_targc))\<close>\<close>

definition spat_dist :: "inputs \<Rightarrow> vec \<Rightarrow> vec" where
  "spat_dist x tv =
    (\<lambda>A. pow (tv A) (Spat_targc x) / (\<Sum>B<nareas x. pow (tv B) (Spat_targc x)))"

text \<open>
  The closures of year \<open>yr\<close>: \<open>d1\<close>, \<open>fracE\<close> and \<open>fracE2\<close>, which becomes \<open>fishdist\<close>.
\<close>

definition closed_d1 :: "inputs \<Rightarrow> nat \<Rightarrow> vec \<Rightarrow> vec" where
  "closed_d1 x yr fd = fill (nareas x) (\<lambda>A. MPA x yr A * fd A) zvec"

definition closed_fracE :: "inputs \<Rightarrow> nat \<Rightarrow> vec \<Rightarrow> real" where
  "closed_fracE x yr fd = (\<Sum>A<nareas x. closed_d1 x yr fd A)"

definition closed_fracE2 :: "inputs \<Rightarrow> nat \<Rightarrow> vec \<Rightarrow> vec" where
  "closed_fracE2 x yr fd =
    (let d1 = closed_d1 x yr fd;
         fracE = closed_fracE x yr fd
     in fill (nareas x) (\<lambda>A. d1 A * (fracE + (1 - fracE)) / fracE) zvec)"

text \<open>F at age in year \<open>y\<close> and area \<open>A\<close>, from effort and catchability (control 1).\<close>

definition F_effort :: "inputs \<Rightarrow> nat \<Rightarrow> nat \<Rightarrow> pstate \<Rightarrow> pstate" where
  "F_effort x y A s =
    s\<lparr>FMarray := set_col (FMarray s) (maxage x) y A
         (\<lambda>a. (Effind x y * Qc x * fishdist s A * Vuln x a y) / Asize_c x A),
      FMretarray := set_col (FMretarray s) (maxage x) y A
         (\<lambda>a. (Effind x y * Qc x * fishdist s A * Retc x a y) / Asize_c x A)\<rparr>"

text \<open>F at age in year \<open>y\<close> and area \<open>A\<close>, from the apical F (control 2).\<close>

definition F_apical :: "inputs \<Rightarrow> nat \<Rightarrow> nat \<Rightarrow> pstate \<Rightarrow> pstate" where
  "F_apical x y A s =
    s\<lparr>FMarray := set_col (FMarray s) (maxage x) y A
         (\<lambda>a. (Fapic x * fishdist s A * Vuln x a y) / Asize_c x A),
      FMretarray := set_col (FMretarray s) (maxage x) y A
         (\<lambda>a. (Fapic x * fishdist s A * Retc x a y) / Asize_c x A)\<rparr>"

definition calc_F :: "inputs \<Rightarrow> nat \<Rightarrow> pstate \<Rightarrow> pstate" where
  "calc_F x y s =
    (let s1 = (if control x = 1 then fold (F_effort x y) [0..<nareas x] s else s)
     in if control x = 2 then fold (F_apical x y) [0..<nareas x] s1 else s1)"

text \<open>The Fmax condition, on the whole of both cubes.\<close>

definition Fmax :: "inputs \<Rightarrow> pstate \<Rightarrow> pstate" where
  "Fmax x s = s\<lparr>FMarray := clamp (maxF x) (FMarray s),
                FMretarray := clamp (maxF x) (FMretarray s)\<rparr>"

definition Z_total :: "inputs \<Rightarrow> nat \<Rightarrow> pstate \<Rightarrow> pstate" where
  "Z_total x y s =
    s\<lparr>Zarray := set_year (Zarray s) (maxage x) (nareas x) y
                  (\<lambda>a r. Marray s a y r + FMarray s a y r)\<rparr>"

text \<open>
  Control 3, the unfished dynamics after year \<open>yr\<close>: \<open>Z\<close> is \<open>M\<close>, and the recruitment
  by area and the Ricker parameters are updated through the handles \<open>R0c2\<close>, \<open>aRc2\<close>
  and \<open>bRc2\<close>.
\<close>

definition unfished_dist :: "inputs \<Rightarrow> nat \<Rightarrow> nat \<Rightarrow> pstate \<Rightarrow> pstate" where
  "unfished_dist x yr A s =
    s\<lparr>SSB0a := (SSB0a s)(A := (\<Sum>a<maxage x. SBarray s a (yr + 1) A)),
      heap := store_elem (heap s) (R0c2 s) A (\<Sum>a<maxage x. SBarray s a yr A)\<rparr>"

definition unfished_scale :: "inputs \<Rightarrow> pstate \<Rightarrow> pstate" where
  "unfished_scale x s =
    (let S = SSB0a s; R = heap s ! R0c2 s
     in s\<lparr>SSB0a := (\<lambda>A. S A / ((\<Sum>B<nareas x. S B) / SSB0c x)),
          heap := store_vec (heap s) (R0c2 s) (\<lambda>A. R A / ((\<Sum>B<nareas x. R B) / R0 s))\<rparr>)"

definition unfished_SRR :: "inputs \<Rightarrow> nat \<Rightarrow> pstate \<Rightarrow> pstate" where
  "unfished_SRR x A s =
    (let h1 = store_elem (heap s) (bRc2 s) A (ln (5 * hc x) / (0.8 * SSB0a s A));
         h2 = store_elem h1 (aRc2 s) A
                (exp ((h1 ! bRc2 s) A * SSB0a s A) / (h1 ! SSBpRc x) A)
     in s\<lparr>heap := h2\<rparr>)"

definition unfished :: "inputs \<Rightarrow> nat \<Rightarrow> pstate \<Rightarrow> pstate" where
  "unfished x yr s =
    (let s1 = s\<lparr>Zarray := set_year (Zarray s) (maxage x) (nareas x) (yr + 1)
                             (\<lambda>a r. Marray s a (yr + 1) r)\<rparr>;
         s2 = fold (unfished_dist x yr) [0..<nareas x] s1;
         s3 = unfished_scale x s2
     in fold (unfished_SRR x) [0..<nareas x] s3)"

text \<open>
  The state before the loop over years: the cubes are zero, the three vectors that
  control 3 updates are cloned, the initial year is filled and its F and Z are computed.
\<close>

definition popdyn_init :: "store \<Rightarrow> inputs \<Rightarrow> pstate" where
  "popdyn_init h x =
    (let (r, h1) = clone h (R0c x);
         (a, h2) = clone h1 (aRc x);
         (b, h3) = clone h2 (bRc x);
         s0 = \<lparr>Narray = set_year zcube (maxage x) (nareas x) 0 (Ncurr x),
               Barray = zcube, SSNarray = zcube, SBarray = zcube, VBarray = zcube,
               Marray = zcube, FMarray = zcube, FMretarray = zcube, Zarray = zcube,
               tempVec = zvec, fishdist = zvec, R0c2 = r, aRc2 = a, bRc2 = b,
               SSB0a = zvec, R0 = (\<Sum>A<nareas x. (h ! R0c x) A), heap = h3\<rparr>;
         s1 = fold (init_area x) [0..<nareas x] s0;
         s2 = s1\<lparr>fishdist := spat_dist x (tempVec s1)\<rparr>;
         s3 = calc_F x 0 s2;
         s4 = Fmax x s3
     in Z_total x 0 s4)"

text \<open>
  The body of the loop over years, for \<open>yr\<close>; \<open>fresh\<close> is the content of the cells of
  the matrix that \<open>popdynOneTScpp\<close> allocates in that call.
\<close>

definition popdyn_year :: "(nat \<Rightarrow> mat) \<Rightarrow> inputs \<Rightarrow> nat \<Rightarrow> pstate \<Rightarrow> pstate" where
  "popdyn_year fresh x yr s =
    (let SB0 = fill (nareas x) (\<lambda>A. \<Sum>a<maxage x. SBarray s a yr A) zvec;
         SB = (if yr > 0 \<and> control x = 3 then SSB0a s else SB0);
         Ncurr2 = (\<lambda>a r. Narray s a yr r);
         Zcurr = (\<lambda>a r. Zarray s a yr r);
         NextYrN = popdynOneTScpp (fresh yr) (nareas x) (maxage x) SB Ncurr2 Zcurr
                     (Prec x (yr + maxage x)) (hc x) (heap s ! R0c2 s) (heap s ! SSBpRc x)
                     (heap s ! aRc2 s) (heap s ! bRc2 s) (movc x yr) (SRrelc x) (plusgroup x);
         s1 = s\<lparr>Narray := set_year (Narray s) (maxage x) (nareas x) (yr + 1) NextYrN\<rparr>;
         s2 = fold (year_area x (yr + 1) NextYrN) [0..<nareas x] s1;
         s3 = s2\<lparr>fishdist := spat_dist x (tempVec s2)\<rparr>;
         s4 = s3\<lparr>fishdist := closed_fracE2 x yr (fishdist s3)\<rparr>;
         s5 = calc_F x (yr + 1) s4
     in if control x = 3 then unfished x yr s5
        else Z_total x (yr + 1) (Fmax x s5))"

definition popdyn_loop :: "(nat \<Rightarrow> mat) \<Rightarrow> inputs \<Rightarrow> nat \<Rightarrow> pstate \<Rightarrow> pstate" where
  "popdyn_loop fresh x k s = fold (popdyn_year fresh x) [0..<k] s"

text \<open>
  The result: the list of the eight cubes, in the order of \<open>out\<close>, and the store the
  caller is left with.
\<close>

definition popdynCPP :: "(nat \<Rightarrow> mat) \<Rightarrow> store \<Rightarrow> inputs \<Rightarrow> cube list \<times> store" where
  "popdynCPP fresh h x =
    (let s = popdyn_loop fresh x (pyears x - 1) (popdyn_init h x)
     in ([Narray s, Barray s, SSNarray s, SBarray s, VBarray s, FMarray s, FMretarray s,
          Zarray s], heap s))"

section \<open>Closed forms of the cells, for the proofs\<close>

text \<open>
  What the first loop of \<open>popdynOneTScpp\<close> leaves in cell \<open>(a, A)\<close> of \<open>Nnext\<close>, as a
  function of the content \<open>X\<close> of the matrix before the loop: \<open>oneTS_base\<close> before the
  plus group, \<open>oneTS_cell\<close> after it. The lemma \<open>oneTS_Nnext_apply\<close> proves that the
  loops compute these.
\<close>

definition oneTS_base ::
  "nat \<Rightarrow> vec \<Rightarrow> mat \<Rightarrow> mat \<Rightarrow> real \<Rightarrow> real \<Rightarrow> vec \<Rightarrow> vec \<Rightarrow> vec \<Rightarrow> vec \<Rightarrow> real
    \<Rightarrow> nat \<Rightarrow> mat \<Rightarrow> nat \<Rightarrow> real" where
  "oneTS_base m SSB N Z P h R S aR bR SR A X a =
    (if 1 \<le> a \<and> a < m then N (a - 1) A * exp (- Z (a - 1) A)
     else if a = 0 \<and> SR = 2 then P * aR A * SSB A * exp (- bR A * SSB A)
     else if a = 0 \<and> SR = 1
       then P * (4 * R A * h * SSB A) / (S A * R A * (1 - h) + (5 * h - 1) * SSB A)
     else X a A)"

definition oneTS_cell ::
  "nat \<Rightarrow> vec \<Rightarrow> mat \<Rightarrow> mat \<Rightarrow> real \<Rightarrow> real \<Rightarrow> vec \<Rightarrow> vec \<Rightarrow> vec \<Rightarrow> vec \<Rightarrow> real \<Rightarrow> int
    \<Rightarrow> nat \<Rightarrow> mat \<Rightarrow> nat \<Rightarrow> real" where
  "oneTS_cell m SSB N Z P h R S aR bR SR pg A X a =
    (if pg > 0 \<and> a = m - 1
     then oneTS_base m SSB N Z P h R S aR bR SR A X (m - 1) / (1 - exp (- Z (m - 1) A))
     else oneTS_base m SSB N Z P h R S aR bR SR A X a)"

text \<open>
  The state of the three clones, for a caller's store \<open>h\<close>: the handles \<open>R0c2\<close>, \<open>aRc2\<close>
  and \<open>bRc2\<close> are the three positions after \<open>h\<close>, and the store still begins with \<open>h\<close>.
\<close>

definition clones_ok :: "store \<Rightarrow> pstate \<Rightarrow> bool" where
  "clones_ok h s \<longleftrightarrow>
     R0c2 s = length h \<and> aRc2 s = length h + 1 \<and> bRc2 s = length h + 2
     \<and> length (heap s) = length h + 3 \<and> take (length h) (heap s) = h"

section \<open>Runs in which the real numbers are the program's\<close>

text \<open>
  The conditions under which no operation of a run leaves the real numbers, so that the
  cells of the model are those of the program.

  \<open>pow_regular b e\<close>: \<open>pow(b, e)\<close> of the C library is the \<open>pow b e\<close> of the model, that
  is, the exponent is zero, or the base is positive, or the base is zero and the
  exponent positive (a zero base with a negative exponent gives \<open>inf\<close>, and a negative
  base is not computed by \<open>powr\<close>).

  \<open>spat_regular x tv\<close>: in \<open>pow(tempVec, Spat_targc) / sum(pow(tempVec, Spat_targc))\<close>
  every power is regular and the sum is not zero.

  \<open>F_regular x\<close>: under controls 1 and 2 no \<open>Asize_c(A)\<close>, by which F is divided, is zero.
\<close>

definition pow_regular :: "real \<Rightarrow> real \<Rightarrow> bool" where
  "pow_regular b e \<longleftrightarrow> e = 0 \<or> 0 < b \<or> (b = 0 \<and> 0 < e)"

definition spat_regular :: "inputs \<Rightarrow> vec \<Rightarrow> bool" where
  "spat_regular x tv \<longleftrightarrow>
     (\<forall>A<nareas x. pow_regular (tv A) (Spat_targc x))
     \<and> (\<Sum>B<nareas x. pow (tv B) (Spat_targc x)) \<noteq> 0"

definition F_regular :: "inputs \<Rightarrow> bool" where
  "F_regular x \<longleftrightarrow> (control x = 1 \<or> control x = 2 \<longrightarrow> (\<forall>A<nareas x. Asize_c x A \<noteq> 0))"

text \<open>
  \<open>init_regular h x\<close>: the effort distribution and the F of the initial year are regular.

  \<open>year_regular fresh x yr s\<close>: the body of the loop for year \<open>yr\<close>, run from the state
  \<open>s\<close>, divides by no zero: the divisor of the Beverton-Holt recruitment and the divisor
  \<open>1 - exp(-Z)\<close> of the plus group in \<open>popdynOneTScpp\<close>, the sum of the powers of the
  vulnerable biomass, \<open>fracE\<close>, the area sizes and, under control 3, \<open>SSB0c\<close>, \<open>R0\<close>, the
  two sums of spawning biomass, the rescaled \<open>SSB0a(A)\<close> and \<open>SSBpRc(A)\<close>; and the
  argument \<open>5 hc\<close> of the logarithm is positive.

  \<open>regular_run fresh h x y\<close>: the initial year and the bodies of the loop for the years
  before \<open>y\<close>, which compute the years \<open>0\<close> to \<open>y\<close> of the output, are regular.
\<close>

definition init_regular :: "store \<Rightarrow> inputs \<Rightarrow> bool" where
  "init_regular h x \<longleftrightarrow> spat_regular x (tempVec (popdyn_init h x)) \<and> F_regular x"

definition year_regular :: "(nat \<Rightarrow> mat) \<Rightarrow> inputs \<Rightarrow> nat \<Rightarrow> pstate \<Rightarrow> bool" where
  "year_regular fresh x yr s \<longleftrightarrow>
    (let s' = popdyn_year fresh x yr s;
         SB = (if yr > 0 \<and> control x = 3 then SSB0a s
               else (\<lambda>A. \<Sum>a<maxage x. SBarray s a yr A))
     in (\<forall>A<nareas x.
           (SRrelc x = 1 \<longrightarrow>
              (heap s ! SSBpRc x) A * (heap s ! R0c2 s) A * (1 - hc x)
                + (5 * hc x - 1) * SB A \<noteq> 0)
         \<and> (plusgroup x > 0 \<longrightarrow> 1 - exp (- Zarray s (maxage x - 1) yr A) \<noteq> 0))
        \<and> spat_regular x (tempVec s')
        \<and> closed_fracE x yr (spat_dist x (tempVec s')) \<noteq> 0
        \<and> F_regular x
        \<and> (control x = 3 \<longrightarrow>
              SSB0c x \<noteq> 0
            \<and> (\<Sum>A<nareas x. \<Sum>a<maxage x. SBarray s' a (yr + 1) A) \<noteq> 0
            \<and> R0 s \<noteq> 0
            \<and> (\<Sum>A<nareas x. \<Sum>a<maxage x. SBarray s' a yr A) \<noteq> 0
            \<and> 0 < 5 * hc x
            \<and> (\<forall>A<nareas x. SSB0a s' A \<noteq> 0 \<and> (heap s ! SSBpRc x) A \<noteq> 0)))"

definition regular_run :: "(nat \<Rightarrow> mat) \<Rightarrow> store \<Rightarrow> inputs \<Rightarrow> nat \<Rightarrow> bool" where
  "regular_run fresh h x y \<longleftrightarrow>
     init_regular h x
     \<and> (\<forall>yr<y. year_regular fresh x yr (popdyn_loop fresh x yr (popdyn_init h x)))"

section \<open>Inputs for the examples\<close>

text \<open>Constant vectors, matrices and cubes.\<close>

definition cvec :: "real \<Rightarrow> vec" where "cvec c = (\<lambda>_. c)"

definition cmat :: "real \<Rightarrow> mat" where "cmat c = (\<lambda>_ _. c)"

definition ccube :: "real \<Rightarrow> cube" where "ccube c = (\<lambda>_ _ _. c)"

text \<open>A movement between areas that keeps nine tenths where they are.\<close>

definition ex_mov :: cube where
  "ex_mov = (\<lambda>age AA BB. if AA = BB then 0.9 else 0.1)"

text \<open>
  The scenario of the specification: one area, two age classes, natural mortality
  \<open>0.2\<close> at both ages, no fishing (the effort is zero), recruitment deviation \<open>1\<close> in
  every year, the Beverton-Holt relationship, and \<open>100\<close> and \<open>50\<close> animals at ages 0
  and 1 to start with; three years. The store holds the four vectors of the handles.
\<close>

definition start_N :: mat where
  "start_N = (\<lambda>a r. if a = 0 then 100 else 50)"

definition scenario :: inputs where
  "scenario =
    \<lparr>nareas = 1, maxage = 2, Ncurr = start_N, pyears = 3, M_age = cmat 0.2,
     Asize_c = cvec 1, MatAge = cmat 1, WtAge = cmat 1, Vuln = cmat 1, Retc = cmat 1,
     Prec = cvec 1, movc = (\<lambda>_. ccube 1), SRrelc = 1, Effind = cvec 0, Spat_targc = 1,
     hc = 0.7, R0c = 0, SSBpRc = 1, aRc = 2, bRc = 3, Qc = 1, Fapic = 0, maxF = 0.8,
     MPA = cmat 1, control = 1, SSB0c = 1000, plusgroup = 0\<rparr>"

definition scenario_store :: store where
  "scenario_store = [cvec 1000, cvec 1, cvec 1, cvec 1]"

definition scenario_fresh :: "nat \<Rightarrow> mat" where
  "scenario_fresh = (\<lambda>_. zmat)"

text \<open>The scenario fished under control 2 with an apical F of \<open>2\<close>, above \<open>maxF = 0.8\<close>.\<close>

definition fished :: inputs where
  "fished = scenario\<lparr>control := 2, Fapic := 2\<rparr>"

text \<open>
  A scenario with a closure: two areas of size \<open>0.5\<close> with \<open>100\<close> and \<open>40\<close> animals at
  each age, the movement above, effort \<open>1\<close> with catchability \<open>0.1\<close> (control 1), the
  targeting exponent \<open>1\<close>, and area 0 closed to fishing in every year. \<open>closure_state\<close>
  is the state after the body of the loop for year 0, and \<open>closure_w\<close> the normalized
  weights of the two areas in year 1.
\<close>

definition ex_N2 :: mat where
  "ex_N2 = (\<lambda>a r. if r = 0 then 100 else 40)"

definition ex_MPA :: mat where
  "ex_MPA = (\<lambda>yr A. if A = 0 then 0 else 1)"

definition closure :: inputs where
  "closure = scenario\<lparr>nareas := 2, Ncurr := ex_N2, Asize_c := cvec 0.5,
     movc := (\<lambda>_. ex_mov), Effind := cvec 1, Qc := 0.1, MPA := ex_MPA\<rparr>"

definition closure_state :: pstate where
  "closure_state =
     popdyn_loop scenario_fresh closure 1 (popdyn_init scenario_store closure)"

definition closure_w :: vec where
  "closure_w = spat_dist closure (tempVec closure_state)"

section \<open>The loops of popdynOneTScpp in closed form\<close>

lemma set_elem_apply: "set_elem X i j v a b = (if a = i \<and> b = j then v else X a b)"
  by (simp add: set_elem_def)

lemma fill_apply: "fill n f v A = (if A < n then f A else v A)"
  unfolding fill_def by (induction n) (auto simp: less_Suc_eq)

lemma fold_set_elem_col:
  "fold (\<lambda>age N. set_elem N age A (g age)) [l..<u] X a r =
     (if r = A \<and> l \<le> a \<and> a < u then g a else X a r)"
proof (induction u)
  case 0
  show ?case by simp
next
  case (Suc u)
  show ?case
  proof (cases "l \<le> u")
    case True
    then show ?thesis using Suc by (auto simp: set_elem_apply less_Suc_eq)
  next
    case False
    then show ?thesis by simp
  qed
qed

lemma oneTS_area_apply:
  "oneTS_area m SSB N Z P h R S aR bR SR pg A X a r =
     (if r = A then oneTS_cell m SSB N Z P h R S aR bR SR pg A X a else X a r)"
  by (auto simp: oneTS_area_def oneTS_cell_def oneTS_base_def Let_def set_elem_apply
      fold_set_elem_col)

lemma oneTS_cell_cong:
  "(\<And>a. X a A = Y a A) \<Longrightarrow>
   oneTS_cell m SSB N Z P h R S aR bR SR pg A X a = oneTS_cell m SSB N Z P h R S aR bR SR pg A Y a"
  by (simp add: oneTS_cell_def oneTS_base_def)

lemma oneTS_Nnext_apply:
  "oneTS_Nnext fresh n m SSB N Z P h R S aR bR SR pg a r =
     (if r < n then oneTS_cell m SSB N Z P h R S aR bR SR pg r fresh a else fresh a r)"
proof (induction n arbitrary: a r)
  case 0
  show ?case by (simp add: oneTS_Nnext_def)
next
  case (Suc n)
  have step: "oneTS_Nnext fresh (Suc n) m SSB N Z P h R S aR bR SR pg =
      oneTS_area m SSB N Z P h R S aR bR SR pg n
        (oneTS_Nnext fresh n m SSB N Z P h R S aR bR SR pg)"
    by (simp add: oneTS_Nnext_def)
  have same: "oneTS_cell m SSB N Z P h R S aR bR SR pg n
        (oneTS_Nnext fresh n m SSB N Z P h R S aR bR SR pg) a =
      oneTS_cell m SSB N Z P h R S aR bR SR pg n fresh a"
    by (rule oneTS_cell_cong) (simp add: Suc)
  show ?case
    by (simp add: step oneTS_area_apply same Suc less_Suc_eq)
qed

lemma fold_set_elem_rows:
  "fold (\<lambda>BB T. set_elem T BB AA (g BB)) [0..<n] X b a =
     (if a = AA \<and> b < n then g b else X b a)"
  by (induction n) (auto simp: set_elem_apply less_Suc_eq)

lemma fold_set_elem_cols:
  "fold (\<lambda>BB S. set_elem S age BB (g BB)) [0..<n] X a b =
     (if a = age \<and> b < n then g b else X a b)"
  by (induction n) (auto simp: set_elem_apply less_Suc_eq)

lemma tempMat2_apply:
  "fold (\<lambda>AA T. fold (\<lambda>BB T'. set_elem T' BB AA (g AA BB)) [0..<n] T) [0..<k] X b a =
     (if a < k \<and> b < n then g a b else X b a)"
  by (induction k) (auto simp: fold_set_elem_rows less_Suc_eq)

lemma oneTS_move_apply:
  "oneTS_move n mov Nnext age S a b =
     (if a = age \<and> b < n then (\<Sum>AA<n. Nnext age AA * mov age AA b) else S a b)"
  by (simp add: oneTS_move_def Let_def fold_set_elem_cols tempMat2_apply)

lemma fold_oneTS_move:
  "fold (oneTS_move n mov Nnext) [0..<m] S a b =
     (if a < m \<and> b < n then (\<Sum>AA<n. Nnext a AA * mov a AA b) else S a b)"
  by (induction m) (auto simp: oneTS_move_apply less_Suc_eq)

lemma popdynOneTScpp_apply:
  "popdynOneTScpp fresh n m SSB N Z P h R S aR bR mov SR pg a b =
     (if a < m \<and> b < n
      then (\<Sum>AA<n. oneTS_Nnext fresh n m SSB N Z P h R S aR bR SR pg a AA * mov a AA b)
      else 0)"
  by (simp add: popdynOneTScpp_def Let_def fold_oneTS_move zmat_def)

lemma Nnext_plusgroup:
  assumes "pg1 > 0" and "pg0 \<le> 0" and "A < n"
  shows "oneTS_Nnext fresh n m SSB N Z P h R S aR bR SR pg1 (m - 1) A =
         oneTS_Nnext fresh n m SSB N Z P h R S aR bR SR pg0 (m - 1) A
           / (1 - exp (- Z (m - 1) A))"
  using assms by (simp add: oneTS_Nnext_apply oneTS_cell_def)

lemma Nnext_ageing:
  assumes "A < n" and "1 \<le> a" and "a < m" and "pg \<le> 0 \<or> a < m - 1"
  shows "oneTS_Nnext fresh n m SSB N Z P h R S aR bR SR pg a A =
         N (a - 1) A * exp (- Z (a - 1) A)"
  using assms by (auto simp: oneTS_Nnext_apply oneTS_cell_def oneTS_base_def)

lemma Nnext_age0_unassigned:
  assumes "A < n" and "0 < m" and "SR \<noteq> 1" and "SR \<noteq> 2"
  shows "oneTS_Nnext fresh n m SSB N Z P h R S aR bR SR pg 0 A =
         (if pg > 0 \<and> m = 1 then fresh 0 A / (1 - exp (- Z 0 A)) else fresh 0 A)"
  using assms by (auto simp: oneTS_Nnext_apply oneTS_cell_def oneTS_base_def)

lemma plus_divide_ge:
  fixes x z :: real
  assumes "0 < z" and "0 \<le> x"
  shows "x \<le> x / (1 - exp (- z))"
proof -
  have "0 < 1 - exp (- z)" and "1 - exp (- z) \<le> 1" using assms(1) by simp_all
  then show ?thesis using assms(2) by (simp add: pos_le_divide_eq mult_left_le)
qed

lemma plus_divide_gt:
  fixes x z :: real
  assumes "0 < z" and "0 < x"
  shows "x < x / (1 - exp (- z))"
proof -
  have "0 < 1 - exp (- z)" and "1 - exp (- z) < 1" using assms(1) by simp_all
  then show ?thesis using assms(2) by (simp add: pos_less_divide_eq)
qed

section \<open>Claims about popdynOneTScpp\<close>



text \<open>
  C3, as amended. Let \<open>Z > 0\<close> at the final age class in every area, and let the
  movement fractions into area \<open>B\<close> and the numbers before movement at the final age
  class without the plus group be nonnegative. Then the final age class of the result
  with the plus-group flag enabled is at least that with the flag disabled, and it is
  strictly greater when some source area has positive numbers and a positive fraction
  into \<open>B\<close>. (At \<open>Z = 0\<close> the divisor \<open>1 - exp(-Z)\<close> of the plus group is \<open>0\<close>.)
\<close>

theorem plusgroup_increases_final_age:
  assumes "0 < m" and "B < n" and "pg1 > 0" and "pg0 \<le> 0"
    and "\<forall>A<n. 0 < Z (m - 1) A"
    and "\<forall>A<n. 0 \<le> oneTS_Nnext fresh n m SSB N Z P h R S aR bR SR pg0 (m - 1) A"
    and "\<forall>A<n. 0 \<le> mov (m - 1) A B"
  shows "popdynOneTScpp fresh n m SSB N Z P h R S aR bR mov SR pg0 (m - 1) B
           \<le> popdynOneTScpp fresh n m SSB N Z P h R S aR bR mov SR pg1 (m - 1) B
       \<and> ((\<exists>A<n. 0 < oneTS_Nnext fresh n m SSB N Z P h R S aR bR SR pg0 (m - 1) A
                 \<and> 0 < mov (m - 1) A B)
          \<longrightarrow> popdynOneTScpp fresh n m SSB N Z P h R S aR bR mov SR pg0 (m - 1) B
                < popdynOneTScpp fresh n m SSB N Z P h R S aR bR mov SR pg1 (m - 1) B)"
proof -
  define L where "L = m - 1"
  define X0 where "X0 = oneTS_Nnext fresh n m SSB N Z P h R S aR bR SR pg0 L"
  define X1 where "X1 = oneTS_Nnext fresh n m SSB N Z P h R S aR bR SR pg1 L"
  have L: "L < m" using assms(1) by (simp add: L_def)
  have Zpos: "0 < Z L A" if "A < n" for A using assms(5) that by (simp add: L_def)
  have X0nn: "0 \<le> X0 A" if "A < n" for A using assms(6) that by (simp add: L_def X0_def)
  have movnn: "0 \<le> mov L A B" if "A < n" for A using assms(7) that by (simp add: L_def)
  have X1: "X1 A = X0 A / (1 - exp (- Z L A))" if "A < n" for A
    unfolding X0_def X1_def L_def using Nnext_plusgroup [OF assms(3,4) that] .
  have le: "X0 A * mov L A B \<le> X1 A * mov L A B" if "A < n" for A
  proof -
    have "X0 A \<le> X1 A"
      unfolding X1 [OF that] using Zpos [OF that] X0nn [OF that] by (rule plus_divide_ge)
    then show ?thesis using movnn [OF that] by (rule mult_right_mono)
  qed
  have res0: "popdynOneTScpp fresh n m SSB N Z P h R S aR bR mov SR pg0 L B =
      (\<Sum>A<n. X0 A * mov L A B)"
    using L assms(2) by (simp add: popdynOneTScpp_apply X0_def)
  have res1: "popdynOneTScpp fresh n m SSB N Z P h R S aR bR mov SR pg1 L B =
      (\<Sum>A<n. X1 A * mov L A B)"
    using L assms(2) by (simp add: popdynOneTScpp_apply X1_def)
  have part1: "(\<Sum>A<n. X0 A * mov L A B) \<le> (\<Sum>A<n. X1 A * mov L A B)"
    using le by (intro sum_mono) simp
  have part2: "(\<Sum>A<n. X0 A * mov L A B) < (\<Sum>A<n. X1 A * mov L A B)"
    if ex: "\<exists>A<n. 0 < X0 A \<and> 0 < mov L A B"
  proof (rule sum_strict_mono_ex1)
    show "finite {..<n}" by simp
    show "\<forall>A\<in>{..<n}. X0 A * mov L A B \<le> X1 A * mov L A B"
      using le by simp
    from ex obtain A where A: "A < n" "0 < X0 A" "0 < mov L A B" by blast
    have "X0 A < X1 A"
      unfolding X1 [OF A(1)] using Zpos [OF A(1)] A(2) by (rule plus_divide_gt)
    then have "X0 A * mov L A B < X1 A * mov L A B"
      using A(3) by (rule mult_strict_right_mono)
    then show "\<exists>A\<in>{..<n}. X0 A * mov L A B < X1 A * mov L A B"
      using A(1) by blast
  qed
  have "popdynOneTScpp fresh n m SSB N Z P h R S aR bR mov SR pg0 L B
          \<le> popdynOneTScpp fresh n m SSB N Z P h R S aR bR mov SR pg1 L B"
    using part1 by (simp only: res0 res1)
  moreover have "popdynOneTScpp fresh n m SSB N Z P h R S aR bR mov SR pg0 L B
          < popdynOneTScpp fresh n m SSB N Z P h R S aR bR mov SR pg1 L B"
    if "\<exists>A<n. 0 < X0 A \<and> 0 < mov L A B"
    using part2 [OF that] by (simp only: res0 res1)
  ultimately show ?thesis
    unfolding X0_def L_def by blast
qed

text \<open>C3 as amended, at two areas and two ages with \<open>Z = 0.2\<close> and 100 animals at age 0.\<close>

theorem plusgroup_increases_final_age_witness:
  "popdynOneTScpp zmat 2 2 (cvec 10) (cmat 100) (cmat 0.2) 1 0.7 (cvec 1000)
      (cvec 1) (cvec 1) (cvec 1) ex_mov 1 0 (2 - 1) 0
   < popdynOneTScpp zmat 2 2 (cvec 10) (cmat 100) (cmat 0.2) 1 0.7 (cvec 1000)
      (cvec 1) (cvec 1) (cvec 1) ex_mov 1 1 (2 - 1) 0"
proof -
  have N: "oneTS_Nnext zmat 2 2 (cvec 10) (cmat 100) (cmat 0.2) 1 0.7 (cvec 1000)
      (cvec 1) (cvec 1) (cvec 1) 1 0 (2 - 1) A = 100 * exp (- 0.2)" if "A < 2" for A
    using that by (simp add: Nnext_ageing cmat_def)
  have h1: "\<forall>A<2. 0 < cmat 0.2 (2 - 1) A" by (simp add: cmat_def)
  have h2: "\<forall>A<2. 0 \<le> oneTS_Nnext zmat 2 2 (cvec 10) (cmat 100) (cmat 0.2) 1 0.7 (cvec 1000)
      (cvec 1) (cvec 1) (cvec 1) 1 0 (2 - 1) A"
    using N by simp
  have h3: "\<forall>A<2. 0 \<le> ex_mov (2 - 1) A 0" by (simp add: ex_mov_def)
  have h4: "\<exists>A<2. 0 < oneTS_Nnext zmat 2 2 (cvec 10) (cmat 100) (cmat 0.2) 1 0.7 (cvec 1000)
      (cvec 1) (cvec 1) (cvec 1) 1 0 (2 - 1) A \<and> 0 < ex_mov (2 - 1) A 0"
    using N [of 0] by (intro exI [of _ 0]) (simp add: ex_mov_def)
  show ?thesis
    using plusgroup_increases_final_age [where m = 2 and B = 0 and n = 2 and ?pg1.0 = 1
        and ?pg0.0 = 0 and Z = "cmat 0.2" and mov = ex_mov, OF _ _ _ _ h1 h2 h3] h4
    by simp
qed

text \<open>
  C3 as stated fails: with \<open>Z = 0.2 > 0\<close> and no animals at age 0, the final age class
  is \<open>0\<close> with the plus group and without it, not strictly greater.
\<close>

theorem plusgroup_equal_at_zero_abundance:
  "cmat 0.2 (2 - 1) 0 > 0
   \<and> popdynOneTScpp zmat 1 2 (cvec 10) zmat (cmat 0.2) 1 0.7 (cvec 1000)
        (cvec 1) (cvec 1) (cvec 1) (ccube 1) 1 1 (2 - 1) 0
     = popdynOneTScpp zmat 1 2 (cvec 10) zmat (cmat 0.2) 1 0.7 (cvec 1000)
        (cvec 1) (cvec 1) (cvec 1) (ccube 1) 1 0 (2 - 1) 0"
  by (simp add: popdynOneTScpp_apply oneTS_Nnext_apply oneTS_cell_def oneTS_base_def
      cmat_def zmat_def)

text \<open>
  C10, as amended. \<open>popdynOneTScpp\<close> assigns recruitment to the age-0 cells only when
  \<open>SRrel\<close> is 1 or 2, and then the result does not depend on what the cells of \<open>Nnext\<close>
  held when the matrix was allocated. For any other \<open>SRrel\<close> the age-0 cell of an area
  still holds that unassigned content when the movement step reads it, divided by
  \<open>1 - exp(-Z)\<close> when \<open>maxage\<close> is 1 and the plus group is on (the final age class is
  then age 0); the age-0 row of the result is the movement of these cells: neither
  zero nor an error, but whatever the storage held.
\<close>

theorem age0_from_unassigned_cells:
  assumes "0 < m" and "A < n" and "B < n"
  shows "(SR = 1 \<or> SR = 2 \<longrightarrow>
            popdynOneTScpp fresh n m SSB N Z P h R S aR bR mov SR pg =
            popdynOneTScpp fresh' n m SSB N Z P h R S aR bR mov SR pg)
       \<and> (SR \<noteq> 1 \<and> SR \<noteq> 2 \<longrightarrow>
            oneTS_Nnext fresh n m SSB N Z P h R S aR bR SR pg 0 A =
              (if pg > 0 \<and> m = 1 then fresh 0 A / (1 - exp (- Z 0 A)) else fresh 0 A)
            \<and> popdynOneTScpp fresh n m SSB N Z P h R S aR bR mov SR pg 0 B =
              (\<Sum>AA<n. (if pg > 0 \<and> m = 1 then fresh 0 AA / (1 - exp (- Z 0 AA))
                          else fresh 0 AA) * mov 0 AA B))"
proof -
  have assigned: "popdynOneTScpp fresh n m SSB N Z P h R S aR bR mov SR pg =
      popdynOneTScpp fresh' n m SSB N Z P h R S aR bR mov SR pg" if "SR = 1 \<or> SR = 2"
  proof -
    have "oneTS_Nnext fresh n m SSB N Z P h R S aR bR SR pg a AA =
          oneTS_Nnext fresh' n m SSB N Z P h R S aR bR SR pg a AA"
      if "a < m" "AA < n" for a AA
      using that \<open>SR = 1 \<or> SR = 2\<close>
      by (auto simp: oneTS_Nnext_apply oneTS_cell_def oneTS_base_def)
    then show ?thesis
      by (simp add: fun_eq_iff popdynOneTScpp_apply)
  qed
  have cells: "oneTS_Nnext fresh n m SSB N Z P h R S aR bR SR pg 0 AA =
      (if pg > 0 \<and> m = 1 then fresh 0 AA / (1 - exp (- Z 0 AA)) else fresh 0 AA)"
    if "SR \<noteq> 1" "SR \<noteq> 2" "AA < n" for AA
    using Nnext_age0_unassigned [OF that(3) assms(1) that(1,2)] .
  have "popdynOneTScpp fresh n m SSB N Z P h R S aR bR mov SR pg 0 B =
      (\<Sum>AA<n. (if pg > 0 \<and> m = 1 then fresh 0 AA / (1 - exp (- Z 0 AA))
                  else fresh 0 AA) * mov 0 AA B)"
    if "SR \<noteq> 1" "SR \<noteq> 2"
    using assms(1,3) cells [OF that] by (simp add: popdynOneTScpp_apply)
  then show ?thesis using assigned cells assms(2) by blast
qed

text \<open>
  C10 as amended, at two areas and two ages, with \<open>7\<close> in every unassigned cell: under
  \<open>SRrel = 1\<close> the result is that from cells holding \<open>0\<close>; under \<open>SRrel = 3\<close> the age-0
  cell and the age-0 result are \<open>7\<close>.
\<close>

theorem age0_from_unassigned_cells_witness:
  "popdynOneTScpp (cmat 7) 2 2 (cvec 10) (cmat 100) (cmat 0.2) 1 0.7 (cvec 1000) (cvec 1)
       (cvec 1) (cvec 1) ex_mov 1 0
     = popdynOneTScpp zmat 2 2 (cvec 10) (cmat 100) (cmat 0.2) 1 0.7 (cvec 1000) (cvec 1)
       (cvec 1) (cvec 1) ex_mov 1 0
   \<and> oneTS_Nnext (cmat 7) 2 2 (cvec 10) (cmat 100) (cmat 0.2) 1 0.7 (cvec 1000) (cvec 1)
       (cvec 1) (cvec 1) 3 0 0 1 = 7
   \<and> popdynOneTScpp (cmat 7) 2 2 (cvec 10) (cmat 100) (cmat 0.2) 1 0.7 (cvec 1000) (cvec 1)
       (cvec 1) (cvec 1) ex_mov 3 0 0 0 = 7"
  using age0_from_unassigned_cells [where m = 2 and A = 1 and B = 0 and n = 2 and SR = 1
      and fresh = "cmat 7" and fresh' = zmat and pg = 0 and mov = ex_mov]
    age0_from_unassigned_cells [where m = 2 and A = 1 and B = 0 and n = 2 and SR = 3
      and fresh = "cmat 7" and pg = 0 and mov = ex_mov and Z = "cmat 0.2"]
  by (simp add: cmat_def ex_mov_def numeral_2_eq_2)

text \<open>
  C10 as stated fails: with one age class and the plus group on, the plus-group step
  writes the age-0 cell before the movement step reads it; from \<open>7\<close> it becomes
  \<open>7 / (1 - exp(-0.2))\<close>.
\<close>

theorem age0_written_by_plusgroup:
  "oneTS_Nnext (cmat 7) 1 1 (cvec 10) (cmat 100) (cmat 0.2) 1 0.7 (cvec 1000) (cvec 1)
       (cvec 1) (cvec 1) 3 1 0 0 \<noteq> cmat 7 0 0"
proof -
  have "(7::real) / (1 - exp (- (1/5))) \<noteq> 7"
  proof
    assume "(7::real) / (1 - exp (- (1/5))) = 7"
    moreover have "(1::real) - exp (- (1/5)) \<noteq> 0" by simp
    ultimately have "(7::real) = 7 * (1 - exp (- (1/5)))"
      by (simp add: divide_eq_eq)
    then have "exp (- (1/5)) = (0::real)" by (simp add: algebra_simps)
    then show False by simp
  qed
  then show ?thesis
    by (simp add: oneTS_Nnext_apply oneTS_cell_def oneTS_base_def cmat_def)
qed

section \<open>The stages of popdynCPP, field by field\<close>

named_theorems frame

lemma fold_keeps:
  assumes "\<And>A t. g (f A t) = g t"
  shows "g (fold f xs s) = g s"
  by (induction xs arbitrary: s) (simp_all add: assms)

lemma year_area_frame [frame]:
  "Narray (fold (year_area x y N) xs s) = Narray s"
  "FMarray (fold (year_area x y N) xs s) = FMarray s"
  "FMretarray (fold (year_area x y N) xs s) = FMretarray s"
  "Zarray (fold (year_area x y N) xs s) = Zarray s"
  "fishdist (fold (year_area x y N) xs s) = fishdist s"
  "heap (fold (year_area x y N) xs s) = heap s"
  "R0c2 (fold (year_area x y N) xs s) = R0c2 s"
  "aRc2 (fold (year_area x y N) xs s) = aRc2 s"
  "bRc2 (fold (year_area x y N) xs s) = bRc2 s"
  "SSB0a (fold (year_area x y N) xs s) = SSB0a s"
  "R0 (fold (year_area x y N) xs s) = R0 s"
  by (rule fold_keeps, simp add: year_area_def Let_def)+

lemma init_area_frame [frame]:
  "Narray (fold (init_area x) xs s) = Narray s"
  "FMarray (fold (init_area x) xs s) = FMarray s"
  "FMretarray (fold (init_area x) xs s) = FMretarray s"
  "Zarray (fold (init_area x) xs s) = Zarray s"
  "fishdist (fold (init_area x) xs s) = fishdist s"
  "heap (fold (init_area x) xs s) = heap s"
  "R0c2 (fold (init_area x) xs s) = R0c2 s"
  "aRc2 (fold (init_area x) xs s) = aRc2 s"
  "bRc2 (fold (init_area x) xs s) = bRc2 s"
  "SSB0a (fold (init_area x) xs s) = SSB0a s"
  "R0 (fold (init_area x) xs s) = R0 s"
  by (rule fold_keeps, simp add: init_area_def Let_def)+

lemma F_effort_frame [frame]:
  "Narray (fold (F_effort x y) xs s) = Narray s"
  "Marray (fold (F_effort x y) xs s) = Marray s"
  "VBarray (fold (F_effort x y) xs s) = VBarray s"
  "SBarray (fold (F_effort x y) xs s) = SBarray s"
  "Zarray (fold (F_effort x y) xs s) = Zarray s"
  "tempVec (fold (F_effort x y) xs s) = tempVec s"
  "fishdist (fold (F_effort x y) xs s) = fishdist s"
  "heap (fold (F_effort x y) xs s) = heap s"
  "R0c2 (fold (F_effort x y) xs s) = R0c2 s"
  "aRc2 (fold (F_effort x y) xs s) = aRc2 s"
  "bRc2 (fold (F_effort x y) xs s) = bRc2 s"
  "SSB0a (fold (F_effort x y) xs s) = SSB0a s"
  "R0 (fold (F_effort x y) xs s) = R0 s"
  by (rule fold_keeps, simp add: F_effort_def)+

lemma F_apical_frame [frame]:
  "Narray (fold (F_apical x y) xs s) = Narray s"
  "Marray (fold (F_apical x y) xs s) = Marray s"
  "VBarray (fold (F_apical x y) xs s) = VBarray s"
  "SBarray (fold (F_apical x y) xs s) = SBarray s"
  "Zarray (fold (F_apical x y) xs s) = Zarray s"
  "tempVec (fold (F_apical x y) xs s) = tempVec s"
  "fishdist (fold (F_apical x y) xs s) = fishdist s"
  "heap (fold (F_apical x y) xs s) = heap s"
  "R0c2 (fold (F_apical x y) xs s) = R0c2 s"
  "aRc2 (fold (F_apical x y) xs s) = aRc2 s"
  "bRc2 (fold (F_apical x y) xs s) = bRc2 s"
  "SSB0a (fold (F_apical x y) xs s) = SSB0a s"
  "R0 (fold (F_apical x y) xs s) = R0 s"
  by (rule fold_keeps, simp add: F_apical_def)+

lemma calc_F_frame [frame]:
  "Narray (calc_F x y s) = Narray s"
  "Marray (calc_F x y s) = Marray s"
  "VBarray (calc_F x y s) = VBarray s"
  "SBarray (calc_F x y s) = SBarray s"
  "Zarray (calc_F x y s) = Zarray s"
  "tempVec (calc_F x y s) = tempVec s"
  "fishdist (calc_F x y s) = fishdist s"
  "heap (calc_F x y s) = heap s"
  "R0c2 (calc_F x y s) = R0c2 s"
  "aRc2 (calc_F x y s) = aRc2 s"
  "bRc2 (calc_F x y s) = bRc2 s"
  "SSB0a (calc_F x y s) = SSB0a s"
  "R0 (calc_F x y s) = R0 s"
  by (simp_all add: calc_F_def Let_def frame)

lemma calc_F_other_year:
  assumes "y' \<noteq> y"
  shows "FMarray (calc_F x y s) a y' r = FMarray s a y' r"
    and "FMretarray (calc_F x y s) a y' r = FMretarray s a y' r"
proof -
  have e: "FMarray (fold (F_effort x y) xs t) a y' r = FMarray t a y' r
         \<and> FMretarray (fold (F_effort x y) xs t) a y' r = FMretarray t a y' r" for xs t
    by (induction xs arbitrary: t) (simp_all add: F_effort_def set_col_def assms)
  have f: "FMarray (fold (F_apical x y) xs t) a y' r = FMarray t a y' r
         \<and> FMretarray (fold (F_apical x y) xs t) a y' r = FMretarray t a y' r" for xs t
    by (induction xs arbitrary: t) (simp_all add: F_apical_def set_col_def assms)
  show "FMarray (calc_F x y s) a y' r = FMarray s a y' r"
    and "FMretarray (calc_F x y s) a y' r = FMretarray s a y' r"
    by (simp_all add: calc_F_def Let_def e f)
qed

lemma calc_F_no_fishing:
  assumes "control x \<noteq> 1" and "control x \<noteq> 2"
  shows "calc_F x y s = s"
  using assms by (simp add: calc_F_def)

lemma Marray_year_area:
  "Marray (fold (year_area x y N) [0..<k] s) =
     (\<lambda>a y' r. if a < maxage x \<and> y' = y \<and> r < k then M_age x a y else Marray s a y' r)"
  by (induction k) (auto simp: year_area_def Let_def set_col_def fun_eq_iff less_Suc_eq)

lemma Marray_init_area:
  "Marray (fold (init_area x) [0..<k] s) =
     (\<lambda>a y' r. if a < maxage x \<and> y' = 0 \<and> r < k then M_age x a 0 else Marray s a y' r)"
  by (induction k) (auto simp: init_area_def Let_def set_col_def fun_eq_iff less_Suc_eq)

lemma VBarray_year_area:
  "VBarray (fold (year_area x y N) [0..<k] s) =
     (\<lambda>a y' r. if a < maxage x \<and> y' = y \<and> r < k
                then N a r * WtAge x a y * Vuln x a y else VBarray s a y' r)"
  by (induction k) (auto simp: year_area_def Let_def set_col_def fun_eq_iff less_Suc_eq)

lemma tempVec_year_area:
  "tempVec (fold (year_area x y N) [0..<k] s) A =
     (if A < k then (\<Sum>a<maxage x. N a A * WtAge x a y * Vuln x a y) else tempVec s A)"
  by (induction k arbitrary: A)
    (auto simp: year_area_def Let_def set_col_def less_Suc_eq)

lemma unfished_dist_frame [frame]:
  "Narray (fold (unfished_dist x yr) xs s) = Narray s"
  "Marray (fold (unfished_dist x yr) xs s) = Marray s"
  "VBarray (fold (unfished_dist x yr) xs s) = VBarray s"
  "FMarray (fold (unfished_dist x yr) xs s) = FMarray s"
  "FMretarray (fold (unfished_dist x yr) xs s) = FMretarray s"
  "Zarray (fold (unfished_dist x yr) xs s) = Zarray s"
  "tempVec (fold (unfished_dist x yr) xs s) = tempVec s"
  "fishdist (fold (unfished_dist x yr) xs s) = fishdist s"
  "R0c2 (fold (unfished_dist x yr) xs s) = R0c2 s"
  "aRc2 (fold (unfished_dist x yr) xs s) = aRc2 s"
  "bRc2 (fold (unfished_dist x yr) xs s) = bRc2 s"
  "R0 (fold (unfished_dist x yr) xs s) = R0 s"
  by (rule fold_keeps, simp add: unfished_dist_def)+

lemma unfished_SRR_frame [frame]:
  "Narray (fold (unfished_SRR x) xs s) = Narray s"
  "Marray (fold (unfished_SRR x) xs s) = Marray s"
  "VBarray (fold (unfished_SRR x) xs s) = VBarray s"
  "FMarray (fold (unfished_SRR x) xs s) = FMarray s"
  "FMretarray (fold (unfished_SRR x) xs s) = FMretarray s"
  "Zarray (fold (unfished_SRR x) xs s) = Zarray s"
  "tempVec (fold (unfished_SRR x) xs s) = tempVec s"
  "fishdist (fold (unfished_SRR x) xs s) = fishdist s"
  "R0c2 (fold (unfished_SRR x) xs s) = R0c2 s"
  "aRc2 (fold (unfished_SRR x) xs s) = aRc2 s"
  "bRc2 (fold (unfished_SRR x) xs s) = bRc2 s"
  "R0 (fold (unfished_SRR x) xs s) = R0 s"
  by (rule fold_keeps, simp add: unfished_SRR_def Let_def)+

lemma unfished_frame [frame]:
  "Narray (unfished x yr s) = Narray s"
  "Marray (unfished x yr s) = Marray s"
  "VBarray (unfished x yr s) = VBarray s"
  "FMarray (unfished x yr s) = FMarray s"
  "FMretarray (unfished x yr s) = FMretarray s"
  "tempVec (unfished x yr s) = tempVec s"
  "fishdist (unfished x yr s) = fishdist s"
  "R0c2 (unfished x yr s) = R0c2 s"
  "aRc2 (unfished x yr s) = aRc2 s"
  "bRc2 (unfished x yr s) = bRc2 s"
  "R0 (unfished x yr s) = R0 s"
  by (simp_all add: unfished_def unfished_scale_def Let_def frame)

lemma Zarray_unfished:
  "Zarray (unfished x yr s) =
     set_year (Zarray s) (maxage x) (nareas x) (yr + 1) (\<lambda>a r. Marray s a (yr + 1) r)"
  by (simp add: unfished_def unfished_scale_def Let_def frame)

lemma Narray_year:
  "Narray (popdyn_year fresh x yr s) =
     set_year (Narray s) (maxage x) (nareas x) (yr + 1)
       (popdynOneTScpp (fresh yr) (nareas x) (maxage x)
          (if yr > 0 \<and> control x = 3 then SSB0a s
           else fill (nareas x) (\<lambda>A. \<Sum>a<maxage x. SBarray s a yr A) zvec)
          (\<lambda>a r. Narray s a yr r) (\<lambda>a r. Zarray s a yr r)
          (Prec x (yr + maxage x)) (hc x) (heap s ! R0c2 s) (heap s ! SSBpRc x)
          (heap s ! aRc2 s) (heap s ! bRc2 s) (movc x yr) (SRrelc x) (plusgroup x))"
  by (simp add: popdyn_year_def Let_def frame Fmax_def Z_total_def)

lemma Zarray_year_other:
  assumes "y \<noteq> yr + 1"
  shows "Zarray (popdyn_year fresh x yr s) a y r = Zarray s a y r"
  using assms
  by (simp add: popdyn_year_def Let_def frame Fmax_def Z_total_def Zarray_unfished set_year_def)

lemma FM_year_unfished:
  assumes "control x = 3"
  shows "FMarray (popdyn_year fresh x yr s) = FMarray s"
    and "FMretarray (popdyn_year fresh x yr s) = FMretarray s"
  using assms by (simp_all add: popdyn_year_def Let_def frame calc_F_no_fishing)

lemma FM_year_clamped:
  assumes "control x \<noteq> 3"
  shows "FMarray (popdyn_year fresh x yr s) a y r \<le> maxF x"
    and "FMretarray (popdyn_year fresh x yr s) a y r \<le> maxF x"
  using assms by (simp_all add: popdyn_year_def Let_def Fmax_def Z_total_def clamp_def)

lemma FM_year_other:
  assumes "control x \<noteq> 3" and "y \<noteq> yr + 1"
  shows "FMarray (popdyn_year fresh x yr s) a y r =
           (if FMarray s a y r > maxF x then maxF x else FMarray s a y r)"
    and "FMretarray (popdyn_year fresh x yr s) a y r =
           (if FMretarray s a y r > maxF x then maxF x else FMretarray s a y r)"
  using assms
  by (simp_all add: popdyn_year_def Let_def Fmax_def Z_total_def clamp_def
      calc_F_other_year frame)

lemma Zarray_year_new:
  assumes "a < maxage x" and "r < nareas x"
  shows "Zarray (popdyn_year fresh x yr s) a (yr + 1) r =
           M_age x a (yr + 1)
           + (if control x = 3 then 0 else FMarray (popdyn_year fresh x yr s) a (yr + 1) r)"
  using assms
  by (simp add: popdyn_year_def Let_def frame Fmax_def Z_total_def Zarray_unfished
      set_year_def Marray_year_area)

lemma tempVec_year:
  assumes "A < nareas x"
  shows "tempVec (popdyn_year fresh x yr s) A =
           (\<Sum>a<maxage x. VBarray (popdyn_year fresh x yr s) a (yr + 1) A)"
  using assms
  by (simp add: popdyn_year_def Let_def frame Fmax_def Z_total_def
      tempVec_year_area VBarray_year_area)

lemma fishdist_year:
  "fishdist (popdyn_year fresh x yr s) =
     closed_fracE2 x yr (spat_dist x (tempVec (popdyn_year fresh x yr s)))"
  by (simp add: popdyn_year_def Let_def frame Fmax_def Z_total_def)

lemma Narray_init:
  "Narray (popdyn_init h x) = set_year zcube (maxage x) (nareas x) 0 (Ncurr x)"
  by (simp add: popdyn_init_def clone_def Let_def frame Fmax_def Z_total_def)

lemma FM_init_clamped:
  "FMarray (popdyn_init h x) a y r \<le> maxF x"
  "FMretarray (popdyn_init h x) a y r \<le> maxF x"
  by (simp_all add: popdyn_init_def clone_def Let_def Fmax_def Z_total_def clamp_def)

lemma FM_init_no_fishing:
  assumes "control x \<noteq> 1" and "control x \<noteq> 2"
  shows "FMarray (popdyn_init h x) = clamp (maxF x) zcube"
    and "FMretarray (popdyn_init h x) = clamp (maxF x) zcube"
  using assms
  by (simp_all add: popdyn_init_def clone_def Let_def Fmax_def Z_total_def
      calc_F_no_fishing frame)

lemma Zarray_init:
  assumes "a < maxage x" and "r < nareas x"
  shows "Zarray (popdyn_init h x) a 0 r = M_age x a 0 + FMarray (popdyn_init h x) a 0 r"
  using assms
  by (simp add: popdyn_init_def clone_def Let_def Fmax_def Z_total_def frame set_year_def
      Marray_init_area)

lemma popdyn_loop_0: "popdyn_loop fresh x 0 s = s"
  by (simp add: popdyn_loop_def)

lemma popdyn_loop_Suc:
  "popdyn_loop fresh x (Suc k) s = popdyn_year fresh x k (popdyn_loop fresh x k s)"
  by (simp add: popdyn_loop_def)

lemma loop_FM_clamped:
  "FMarray (popdyn_loop fresh x k (popdyn_init h x)) a y r \<le> maxF x
   \<and> FMretarray (popdyn_loop fresh x k (popdyn_init h x)) a y r \<le> maxF x"
proof (induction k)
  case 0
  show ?case by (simp add: popdyn_loop_0 FM_init_clamped)
next
  case (Suc k)
  show ?case
  proof (cases "control x = 3")
    case True
    then show ?thesis using Suc by (simp add: popdyn_loop_Suc FM_year_unfished)
  next
    case False
    then show ?thesis by (simp add: popdyn_loop_Suc FM_year_clamped)
  qed
qed

lemma loop_Narray_later:
  assumes "y \<le> k"
  shows "Narray (popdyn_loop fresh x (k + j) s) a y r = Narray (popdyn_loop fresh x k s) a y r"
  using assms by (induction j) (simp_all add: popdyn_loop_Suc Narray_year set_year_def)

lemma loop_Zarray_later:
  assumes "y \<le> k"
  shows "Zarray (popdyn_loop fresh x (k + j) s) a y r = Zarray (popdyn_loop fresh x k s) a y r"
  using assms by (induction j) (simp_all add: popdyn_loop_Suc Zarray_year_other)

lemma loop_FM_later:
  assumes "y \<le> k"
  shows "FMarray (popdyn_loop fresh x (k + j) (popdyn_init h x)) a y r =
         FMarray (popdyn_loop fresh x k (popdyn_init h x)) a y r"
proof (induction j)
  case 0
  show ?case by simp
next
  case (Suc j)
  show ?case
  proof (cases "control x = 3")
    case True
    then show ?thesis using Suc by (simp add: popdyn_loop_Suc FM_year_unfished)
  next
    case False
    have "FMarray (popdyn_loop fresh x (k + j) (popdyn_init h x)) a y r \<le> maxF x"
      using loop_FM_clamped by blast
    then show ?thesis using False Suc assms
      by (simp add: popdyn_loop_Suc FM_year_other)
  qed
qed

lemma loop_Zarray:
  assumes "a < maxage x" and "r < nareas x" and "y \<le> k"
  shows "Zarray (popdyn_loop fresh x k (popdyn_init h x)) a y r =
           M_age x a y
           + (if control x = 3 \<and> 0 < y then 0
              else FMarray (popdyn_loop fresh x k (popdyn_init h x)) a y r)"
proof -
  let ?s = "\<lambda>k. popdyn_loop fresh x k (popdyn_init h x)"
  have at_y: "Zarray (?s y) a y r =
      M_age x a y + (if control x = 3 \<and> 0 < y then 0 else FMarray (?s y) a y r)"
  proof (cases y)
    case 0
    then show ?thesis using assms(1,2) by (simp add: popdyn_loop_0 Zarray_init)
  next
    case (Suc j)
    then show ?thesis
      using Zarray_year_new [OF assms(1,2), of fresh j "?s j"]
      by (simp add: popdyn_loop_Suc)
  qed
  obtain j where k: "k = y + j" using assms(3) by (auto simp: le_iff_add)
  show ?thesis
    unfolding k using at_y by (simp add: loop_Zarray_later loop_FM_later)
qed

lemma loop_FM_unfished:
  assumes "control x = 3" and "0 \<le> maxF x"
  shows "FMarray (popdyn_loop fresh x k (popdyn_init h x)) = zcube
       \<and> FMretarray (popdyn_loop fresh x k (popdyn_init h x)) = zcube"
proof (induction k)
  case 0
  have "clamp (maxF x) zcube = zcube"
    using assms(2) by (simp add: clamp_def zcube_def fun_eq_iff)
  then show ?case using assms(1) by (simp add: popdyn_loop_0 FM_init_no_fishing)
next
  case (Suc k)
  then show ?case using assms(1) by (simp add: popdyn_loop_Suc FM_year_unfished)
qed

lemma out_nth:
  assumes "K = pyears x - 1"
  shows "fst (popdynCPP fresh h x) ! 0 = Narray (popdyn_loop fresh x K (popdyn_init h x))"
    and "fst (popdynCPP fresh h x) ! 5 = FMarray (popdyn_loop fresh x K (popdyn_init h x))"
    and "fst (popdynCPP fresh h x) ! 6 = FMretarray (popdyn_loop fresh x K (popdyn_init h x))"
    and "fst (popdynCPP fresh h x) ! 7 = Zarray (popdyn_loop fresh x K (popdyn_init h x))"
    and "snd (popdynCPP fresh h x) = heap (popdyn_loop fresh x K (popdyn_init h x))"
  by (simp_all add: popdynCPP_def Let_def assms)

lemma loop_Narray_step:
  assumes "a < maxage x" and "r < nareas x" and "s = popdyn_loop fresh x yr s0"
  shows "Narray (popdyn_loop fresh x (Suc yr + j) s0) a (Suc yr) r =
     popdynOneTScpp (fresh yr) (nareas x) (maxage x)
       (if yr > 0 \<and> control x = 3 then SSB0a s
        else fill (nareas x) (\<lambda>A. \<Sum>a<maxage x. SBarray s a yr A) zvec)
       (\<lambda>a r. Narray s a yr r) (\<lambda>a r. Zarray s a yr r)
       (Prec x (yr + maxage x)) (hc x) (heap s ! R0c2 s) (heap s ! SSBpRc x)
       (heap s ! aRc2 s) (heap s ! bRc2 s) (movc x yr) (SRrelc x) (plusgroup x) a r"
proof -
  have "Narray (popdyn_loop fresh x (Suc yr + j) s0) a (Suc yr) r =
        Narray (popdyn_loop fresh x (Suc yr) s0) a (Suc yr) r"
    by (rule loop_Narray_later) simp
  also have "\<dots> = Narray (popdyn_year fresh x yr s) a (Suc yr) r"
    by (simp add: popdyn_loop_Suc assms(3))
  finally show ?thesis
    using assms(1,2) by (simp add: Narray_year set_year_def)
qed

lemma final_year_split:
  assumes "y < pyears x"
  obtains j where "pyears x - 1 = y + j"
proof -
  have "y \<le> pyears x - 1" using assms by simp
  then obtain j where "pyears x - 1 = y + j" by (auto simp: le_iff_add)
  then show ?thesis by (rule that)
qed

lemma out_Narray_step:
  assumes "yr + 1 < pyears x" and "a < maxage x" and "r < nareas x"
    and "s = popdyn_loop fresh x yr (popdyn_init h x)"
  shows "(fst (popdynCPP fresh h x) ! 0) a (yr + 1) r =
     popdynOneTScpp (fresh yr) (nareas x) (maxage x)
       (if yr > 0 \<and> control x = 3 then SSB0a s
        else fill (nareas x) (\<lambda>A. \<Sum>a<maxage x. SBarray s a yr A) zvec)
       (\<lambda>a r. Narray s a yr r) (\<lambda>a r. Zarray s a yr r)
       (Prec x (yr + maxage x)) (hc x) (heap s ! R0c2 s) (heap s ! SSBpRc x)
       (heap s ! aRc2 s) (heap s ! bRc2 s) (movc x yr) (SRrelc x) (plusgroup x) a r"
proof -
  obtain j where K: "pyears x - 1 = Suc yr + j"
    using assms(1) final_year_split [of "Suc yr" x] by auto
  have "(fst (popdynCPP fresh h x) ! 0) a (Suc yr) r =
        Narray (popdyn_loop fresh x (Suc yr + j) (popdyn_init h x)) a (Suc yr) r"
    by (simp add: out_nth [OF K [symmetric]])
  then show ?thesis
    using loop_Narray_step [OF assms(2,3,4), of j] by simp
qed

lemma stages_Prec:
  "init_area (x\<lparr>Prec := P\<rparr>) = init_area x"
  "year_area (x\<lparr>Prec := P\<rparr>) = year_area x"
  "spat_dist (x\<lparr>Prec := P\<rparr>) = spat_dist x"
  "closed_fracE2 (x\<lparr>Prec := P\<rparr>) = closed_fracE2 x"
  "F_effort (x\<lparr>Prec := P\<rparr>) = F_effort x"
  "F_apical (x\<lparr>Prec := P\<rparr>) = F_apical x"
  "Fmax (x\<lparr>Prec := P\<rparr>) = Fmax x"
  "Z_total (x\<lparr>Prec := P\<rparr>) = Z_total x"
  "unfished_dist (x\<lparr>Prec := P\<rparr>) = unfished_dist x"
  "unfished_scale (x\<lparr>Prec := P\<rparr>) = unfished_scale x"
  "unfished_SRR (x\<lparr>Prec := P\<rparr>) = unfished_SRR x"
  by (simp_all add: fun_eq_iff init_area_def year_area_def spat_dist_def closed_fracE2_def
      closed_fracE_def closed_d1_def F_effort_def F_apical_def Fmax_def Z_total_def
      unfished_dist_def unfished_scale_def unfished_SRR_def)

lemma stages_control:
  "init_area (x\<lparr>control := c\<rparr>) = init_area x"
  "year_area (x\<lparr>control := c\<rparr>) = year_area x"
  "spat_dist (x\<lparr>control := c\<rparr>) = spat_dist x"
  "closed_fracE2 (x\<lparr>control := c\<rparr>) = closed_fracE2 x"
  "F_effort (x\<lparr>control := c\<rparr>) = F_effort x"
  "F_apical (x\<lparr>control := c\<rparr>) = F_apical x"
  "Fmax (x\<lparr>control := c\<rparr>) = Fmax x"
  "Z_total (x\<lparr>control := c\<rparr>) = Z_total x"
  "unfished_dist (x\<lparr>control := c\<rparr>) = unfished_dist x"
  "unfished_scale (x\<lparr>control := c\<rparr>) = unfished_scale x"
  "unfished_SRR (x\<lparr>control := c\<rparr>) = unfished_SRR x"
  by (simp_all add: fun_eq_iff init_area_def year_area_def spat_dist_def closed_fracE2_def
      closed_fracE_def closed_d1_def F_effort_def F_apical_def Fmax_def Z_total_def
      unfished_dist_def unfished_scale_def unfished_SRR_def)

lemma unfished_Prec: "unfished (x\<lparr>Prec := P\<rparr>) = unfished x"
  by (simp add: fun_eq_iff unfished_def stages_Prec)

lemma unfished_control: "unfished (x\<lparr>control := c\<rparr>) = unfished x"
  by (simp add: fun_eq_iff unfished_def stages_control)

lemma calc_F_Prec: "calc_F (x\<lparr>Prec := P\<rparr>) = calc_F x"
  by (simp add: fun_eq_iff calc_F_def stages_Prec)

lemma popdyn_init_Prec: "popdyn_init h (x\<lparr>Prec := P\<rparr>) = popdyn_init h x"
  by (simp add: popdyn_init_def stages_Prec calc_F_Prec)

lemma popdyn_year_Prec:
  assumes "P (yr + maxage x) = Prec x (yr + maxage x)"
  shows "popdyn_year fresh (x\<lparr>Prec := P\<rparr>) yr s = popdyn_year fresh x yr s"
  using assms
  by (simp add: popdyn_year_def stages_Prec calc_F_Prec unfished_Prec cong: if_cong)

lemma popdyn_loop_Prec:
  assumes "\<forall>yr<k. P (yr + maxage x) = Prec x (yr + maxage x)"
  shows "popdyn_loop fresh (x\<lparr>Prec := P\<rparr>) k s = popdyn_loop fresh x k s"
  using assms by (induction k) (simp_all add: popdyn_loop_0 popdyn_loop_Suc popdyn_year_Prec)

lemma popdynCPP_Prec:
  assumes "\<forall>yr. yr + 1 < pyears x \<longrightarrow> P (yr + maxage x) = Prec x (yr + maxage x)"
  shows "popdynCPP fresh h (x\<lparr>Prec := P\<rparr>) = popdynCPP fresh h x"
proof -
  have "\<forall>yr<pyears x - 1. P (yr + maxage x) = Prec x (yr + maxage x)"
    using assms by (simp add: less_diff_conv)
  then show ?thesis
    by (simp add: popdynCPP_def popdyn_init_Prec popdyn_loop_Prec)
qed

lemma F_effort_apical:
  assumes "Effind x y * Qc x = Fapic x"
  shows "F_effort x y = F_apical x y"
  using assms by (simp add: fun_eq_iff F_effort_def F_apical_def)

lemma calc_F_modes:
  assumes "Effind x y * Qc x = Fapic x"
  shows "calc_F (x\<lparr>control := 1\<rparr>) y s = calc_F (x\<lparr>control := 2\<rparr>) y s"
  using assms by (simp add: calc_F_def stages_control F_effort_apical)

lemma popdyn_init_modes:
  assumes "Effind x 0 * Qc x = Fapic x"
  shows "popdyn_init h (x\<lparr>control := 1\<rparr>) = popdyn_init h (x\<lparr>control := 2\<rparr>)"
  using assms by (simp add: popdyn_init_def stages_control calc_F_modes)

lemma popdyn_year_modes:
  assumes "Effind x (yr + 1) * Qc x = Fapic x"
  shows "popdyn_year fresh (x\<lparr>control := 1\<rparr>) yr s = popdyn_year fresh (x\<lparr>control := 2\<rparr>) yr s"
  using assms calc_F_modes [of x "Suc yr"]
  by (simp add: popdyn_year_def stages_control unfished_control cong: if_cong)

lemma popdyn_loop_modes:
  assumes "\<forall>y\<le>k. Effind x y * Qc x = Fapic x"
  shows "popdyn_loop fresh (x\<lparr>control := 1\<rparr>) k s = popdyn_loop fresh (x\<lparr>control := 2\<rparr>) k s"
  using assms by (induction k) (simp_all add: popdyn_loop_0 popdyn_loop_Suc popdyn_year_modes)

lemma popdynCPP_modes:
  assumes "\<forall>y\<le>pyears x - 1. Effind x y * Qc x = Fapic x"
  shows "popdynCPP fresh h (x\<lparr>control := 1\<rparr>) = popdynCPP fresh h (x\<lparr>control := 2\<rparr>)"
proof -
  have "popdyn_init h (x\<lparr>control := 1\<rparr>) = popdyn_init h (x\<lparr>control := 2\<rparr>)"
    using assms by (simp add: popdyn_init_modes)
  moreover have "popdyn_loop fresh (x\<lparr>control := 1\<rparr>) (pyears x - 1) s =
      popdyn_loop fresh (x\<lparr>control := 2\<rparr>) (pyears x - 1) s" for s
    using assms by (rule popdyn_loop_modes)
  ultimately show ?thesis
    by (simp add: popdynCPP_def)
qed

lemma fold_inv:
  assumes "P s" and "\<And>A t. P t \<Longrightarrow> P (f A t)"
  shows "P (fold f xs s)"
  using assms(1) by (induction xs arbitrary: s) (simp_all add: assms(2))

lemma take_store_elem:
  assumes "length h \<le> p"
  shows "take (length h) (store_elem g p A c) = take (length h) g"
  using assms by (simp add: store_elem_def)

lemma take_store_vec:
  assumes "length h \<le> p"
  shows "take (length h) (store_vec g p w) = take (length h) g"
  using assms by (simp add: store_vec_def)

lemma clones_ok_frame:
  assumes "clones_ok h s"
    and "R0c2 t = R0c2 s" and "aRc2 t = aRc2 s" and "bRc2 t = bRc2 s" and "heap t = heap s"
  shows "clones_ok h t"
  using assms by (simp add: clones_ok_def)

lemma clones_ok_unfished_dist:
  assumes "clones_ok h s"
  shows "clones_ok h (fold (unfished_dist x yr) xs s)"
  using assms
proof (rule fold_inv)
  fix A t assume "clones_ok h t"
  then show "clones_ok h (unfished_dist x yr A t)"
    by (simp add: clones_ok_def unfished_dist_def take_store_elem store_elem_def)
qed

lemma clones_ok_unfished_SRR:
  assumes "clones_ok h s"
  shows "clones_ok h (fold (unfished_SRR x) xs s)"
  using assms
proof (rule fold_inv)
  fix A t assume "clones_ok h t"
  then show "clones_ok h (unfished_SRR x A t)"
    by (simp add: clones_ok_def unfished_SRR_def Let_def take_store_elem store_elem_def)
qed

lemma clones_ok_unfished:
  assumes "clones_ok h s"
  shows "clones_ok h (unfished x yr s)"
proof -
  have 1: "clones_ok h (s\<lparr>Zarray := Z\<rparr>)" for Z
    using assms by (simp add: clones_ok_def)
  have 2: "clones_ok h (unfished_scale x t)" if "clones_ok h t" for t
    using that
    by (simp add: clones_ok_def unfished_scale_def Let_def take_store_vec store_vec_def)
  show ?thesis
    unfolding unfished_def Let_def
    by (intro clones_ok_unfished_SRR 2 clones_ok_unfished_dist 1)
qed

lemma clones_ok_init: "clones_ok h (popdyn_init h x)"
  by (simp add: clones_ok_def popdyn_init_def clone_def Let_def Fmax_def Z_total_def frame)

lemma clones_ok_year:
  assumes "clones_ok h s"
  shows "clones_ok h (popdyn_year fresh x yr s)"
proof (cases "control x = 3")
  case True
  have "clones_ok h t" if "R0c2 t = R0c2 s" "aRc2 t = aRc2 s" "bRc2 t = bRc2 s"
    "heap t = heap s" for t
    using assms that by (rule clones_ok_frame)
  then show ?thesis
    using True
    by (simp add: popdyn_year_def Let_def clones_ok_unfished frame)
next
  case False
  then show ?thesis
    using assms by (simp add: popdyn_year_def Let_def clones_ok_def Fmax_def Z_total_def frame)
qed

lemma clones_ok_loop: "clones_ok h (popdyn_loop fresh x k (popdyn_init h x))"
  by (induction k) (simp_all add: popdyn_loop_0 popdyn_loop_Suc clones_ok_init clones_ok_year)

lemma store_unchanged:
  "take (length h) (snd (popdynCPP fresh h x)) = h"
  using clones_ok_loop [of h fresh x "pyears x - 1"]
  by (simp add: out_nth [OF refl] clones_ok_def)

lemma closed_d1_apply:
  "closed_d1 x yr w A = (if A < nareas x then MPA x yr A * w A else 0)"
  by (simp add: closed_d1_def fill_apply zvec_def)

lemma closed_fracE2_apply:
  "closed_fracE2 x yr w A =
     (if A < nareas x
      then closed_d1 x yr w A * (closed_fracE x yr w + (1 - closed_fracE x yr w))
             / closed_fracE x yr w
      else 0)"
  by (simp add: closed_fracE2_def Let_def fill_apply zvec_def)

lemma closed_fracE2_sum:
  assumes "closed_fracE x yr w \<noteq> 0"
  shows "(\<Sum>A<nareas x. closed_fracE2 x yr w A) = 1"
proof -
  have "(\<Sum>A<nareas x. closed_fracE2 x yr w A) =
        (\<Sum>A<nareas x. closed_d1 x yr w A / closed_fracE x yr w)"
    by (rule sum.cong) (simp_all add: closed_fracE2_apply)
  also have "\<dots> = (\<Sum>A<nareas x. closed_d1 x yr w A) / closed_fracE x yr w"
    by (simp add: sum_divide_distrib)
  also have "\<dots> = 1"
    using assms by (simp add: closed_fracE_def)
  finally show ?thesis .
qed

lemma scenario_age1:
  assumes "nareas x = 1" and "maxage x = 2" and "plusgroup x \<le> 0"
    and "M_age x 0 y = 0.2"
    and "(fst (popdynCPP fresh h x) ! 5) 0 y 0 = 0"
    and "movc x y 1 0 0 = 1"
    and "y + 1 < pyears x"
  shows "(fst (popdynCPP fresh h x) ! 0) 1 (y + 1) 0 =
         (fst (popdynCPP fresh h x) ! 0) 0 y 0 * exp (- 0.2)"
proof -
  define s where "s = popdyn_loop fresh x y (popdyn_init h x)"
  obtain j where K: "pyears x - 1 = y + Suc j"
    using assms(7) final_year_split [of "Suc y" x] by auto
  have N0: "(fst (popdynCPP fresh h x) ! 0) 0 y 0 = Narray s 0 y 0"
    unfolding s_def out_nth [OF K [symmetric]] by (rule loop_Narray_later) simp
  have FM0: "(fst (popdynCPP fresh h x) ! 5) 0 y 0 = FMarray s 0 y 0"
    unfolding s_def out_nth [OF K [symmetric]] by (rule loop_FM_later) simp
  have "Zarray s 0 y 0 =
      M_age x 0 y + (if control x = 3 \<and> 0 < y then 0 else FMarray s 0 y 0)"
    unfolding s_def by (rule loop_Zarray) (simp_all add: assms(1,2))
  then have Z0: "Zarray s 0 y 0 = 0.2"
    using assms(4,5) by (simp add: FM0)
  have "(fst (popdynCPP fresh h x) ! 0) 1 (y + 1) 0 =
      popdynOneTScpp (fresh y) (nareas x) (maxage x)
       (if y > 0 \<and> control x = 3 then SSB0a s
        else fill (nareas x) (\<lambda>A. \<Sum>a<maxage x. SBarray s a y A) zvec)
       (\<lambda>a r. Narray s a y r) (\<lambda>a r. Zarray s a y r)
       (Prec x (y + maxage x)) (hc x) (heap s ! R0c2 s) (heap s ! SSBpRc x)
       (heap s ! aRc2 s) (heap s ! bRc2 s) (movc x y) (SRrelc x) (plusgroup x) 1 0"
    by (rule out_Narray_step [OF assms(7) _ _ s_def]) (simp_all add: assms(1,2))
  also have "\<dots> = Narray s 0 y 0 * exp (- Zarray s 0 y 0)"
    using assms(3,6) by (simp add: popdynOneTScpp_apply assms(1,2) Nnext_ageing)
  finally show ?thesis by (simp add: N0 Z0)
qed

lemma scenario_no_fishing:
  "(fst (popdynCPP scenario_fresh scenario_store scenario) ! 5) 0 y 0 = 0"
proof -
  define K where "K = pyears scenario - 1"
  have e: "F_effort scenario y' A t = t\<lparr>FMarray := set_col (FMarray t) 2 y' A (\<lambda>_. 0),
      FMretarray := set_col (FMretarray t) 2 y' A (\<lambda>_. 0)\<rparr>" for y' A t
    by (simp add: F_effort_def) (simp add: scenario_def cvec_def)
  have c: "FMarray (calc_F scenario y' t) = zcube" if "FMarray t = zcube" for y' t
  proof -
    have "FMarray (fold (F_effort scenario y') xs t) = zcube" for xs
      using that
      by (induction xs arbitrary: t) (simp_all add: e set_col_def zcube_def fun_eq_iff)
    then show ?thesis
      by (simp add: calc_F_def Let_def) (simp add: scenario_def)
  qed
  have z: "clamp (maxF scenario) zcube = zcube"
    by (simp add: clamp_def zcube_def scenario_def fun_eq_iff)
  have "FMarray (popdyn_loop scenario_fresh scenario k (popdyn_init scenario_store scenario))
      = zcube" for k
  proof (induction k)
    case 0
    have "FMarray (calc_F scenario 0 t) = zcube" if "FMarray t = zcube" for t
      using that by (rule c)
    then show ?case
      by (simp add: popdyn_loop_0 popdyn_init_def clone_def Let_def Fmax_def Z_total_def
          frame z)
  next
    case (Suc k)
    have "control scenario \<noteq> 3" by (simp add: scenario_def)
    then show ?case
      using Suc by (simp add: popdyn_loop_Suc popdyn_year_def Let_def Fmax_def Z_total_def
          frame c z)
  qed
  then show ?thesis by (simp add: out_nth [OF K_def] zcube_def)
qed

lemma VBarray_year:
  assumes "a < maxage x" and "r < nareas x"
  shows "VBarray (popdyn_year fresh x yr s) a (Suc yr) r =
         Narray (popdyn_year fresh x yr s) a (Suc yr) r * WtAge x a (Suc yr) * Vuln x a (Suc yr)"
  using assms
  by (simp add: popdyn_year_def Let_def frame Fmax_def Z_total_def VBarray_year_area set_year_def)

lemma FMarray_F_apical:
  "FMarray (fold (F_apical x y) [0..<k] s) =
     (\<lambda>a y' r. if a < maxage x \<and> y' = y \<and> r < k
        then (Fapic x * fishdist s r * Vuln x a y) / Asize_c x r else FMarray s a y' r)"
proof (induction k)
  case 0
  show ?case by simp
next
  case (Suc k)
  have fd: "fishdist (fold (F_apical x y) [0..<k] s) = fishdist s" by (simp add: frame)
  have step: "FMarray (F_apical x y A t) = set_col (FMarray t) (maxage x) y A
      (\<lambda>a. (Fapic x * fishdist t A * Vuln x a y) / Asize_c x A)" for A t
    by (simp add: F_apical_def)
  show ?case
    by (auto simp: step Suc fd set_col_def fun_eq_iff less_Suc_eq)
qed

lemma FMarray_year_apical:
  assumes "control x = 2" and "a < maxage x" and "r < nareas x"
  shows "FMarray (popdyn_year fresh x yr s) a (Suc yr) r =
     (let F = (Fapic x * fishdist (popdyn_year fresh x yr s) r * Vuln x a (Suc yr)) / Asize_c x r
      in if F > maxF x then maxF x else F)"
  using assms
  by (simp add: popdyn_year_def Let_def Fmax_def Z_total_def clamp_def calc_F_def
      FMarray_F_apical frame)

text \<open>
  The scenario by hand: in year 1 there are \<open>4 * 1000 * 0.7 * 150 / (1000 * 0.3 + 2.5 * 150)\<close>
  recruits, from the spawning biomass \<open>150\<close> of year 0, and \<open>100 exp(-0.2)\<close> animals at
  age 1.
\<close>

lemma scenario_init:
  "Narray (popdyn_init scenario_store scenario) a 0 0 = (if a < 2 then start_N a 0 else 0)"
  "SBarray (popdyn_init scenario_store scenario) a 0 0 = (if a < 2 then start_N a 0 else 0)"
  "Zarray (popdyn_init scenario_store scenario) a 0 0 = (if a < 2 then 0.2 else 0)"
  "heap (popdyn_init scenario_store scenario) ! R0c2 (popdyn_init scenario_store scenario)
     = cvec 1000"
  "heap (popdyn_init scenario_store scenario) ! SSBpRc scenario = cvec 1"
  by (simp_all add: popdyn_init_def clone_def Let_def Fmax_def Z_total_def clamp_def calc_F_def
      scenario_def scenario_store_def F_effort_def set_col_def set_year_def spat_dist_def
      pow_def init_area_def cmat_def cvec_def zcube_def zvec_def frame)

lemma scenario_year_1:
  "(fst (popdynCPP scenario_fresh scenario_store scenario) ! 0) 0 1 0 = 5600 / 9"
  "(fst (popdynCPP scenario_fresh scenario_store scenario) ! 0) 1 1 0 = 100 * exp (- (1/5))"
proof -
  have 1: "0 + 1 < pyears scenario" and 2: "0 < maxage scenario" "1 < maxage scenario"
    and 3: "0 < nareas scenario"
    by (simp_all add: scenario_def)
  have c: "nareas scenario = 1" "maxage scenario = 2" "control scenario = 1"
    "SRrelc scenario = 1" "plusgroup scenario = 0" "hc scenario = 0.7" "Prec scenario = cvec 1"
    "movc scenario 0 = ccube 1"
    by (simp_all add: scenario_def)
  show "(fst (popdynCPP scenario_fresh scenario_store scenario) ! 0) 0 1 0 = 5600 / 9"
    using out_Narray_step [OF 1 2(1) 3 refl, of scenario_fresh scenario_store]
    by (simp add: popdyn_loop_0 c scenario_init popdynOneTScpp_apply oneTS_Nnext_apply
        oneTS_cell_def oneTS_base_def fill_apply numeral_2_eq_2 start_N_def cvec_def ccube_def)
  show "(fst (popdynCPP scenario_fresh scenario_store scenario) ! 0) 1 1 0 = 100 * exp (- (1/5))"
    using out_Narray_step [OF 1 2(2) 3 refl, of scenario_fresh scenario_store]
    by (simp add: popdyn_loop_0 c scenario_init popdynOneTScpp_apply oneTS_Nnext_apply
        oneTS_cell_def oneTS_base_def fill_apply numeral_2_eq_2 start_N_def cvec_def ccube_def)
qed

text \<open>
  Under control 3 the clones are written: with one area, the clone of \<open>bRc\<close> holds
  \<open>log(5 hc) / (0.8 c)\<close> after a year, where \<open>c\<close> is the rescaled spawning biomass
  \<open>SSB0c\<close> (or \<open>0\<close> here, where the program divides by a spawning biomass of zero); in
  the scenario this differs from what the caller's \<open>bRc\<close> holds.
\<close>

lemma store_length: "length (snd (popdynCPP fresh h x)) = length h + 3"
  using clones_ok_loop [of h fresh x "pyears x - 1"]
  by (simp add: out_nth [OF refl] clones_ok_def)

lemma unfished_bRc2:
  assumes "clones_ok h s" and "nareas x = 1"
  shows "\<exists>c. (heap (unfished x yr s) ! (length h + 2)) 0 = ln (5 * hc x) / (0.8 * c)
             \<and> (c = 0 \<or> c = SSB0c x)"
proof -
  define s1 where "s1 = s\<lparr>Zarray := set_year (Zarray s) (maxage x) (nareas x) (yr + 1)
                             (\<lambda>a r. Marray s a (yr + 1) r)\<rparr>"
  define s2 where "s2 = fold (unfished_dist x yr) [0..<nareas x] s1"
  define s3 where "s3 = unfished_scale x s2"
  have ok1: "clones_ok h s1" using assms(1) by (simp add: s1_def clones_ok_def)
  have ok2: "clones_ok h s2" unfolding s2_def using ok1 by (rule clones_ok_unfished_dist)
  have ok3: "clones_ok h s3"
    using ok2 by (simp add: s3_def clones_ok_def unfished_scale_def Let_def take_store_vec
        store_vec_def)
  have c: "SSB0a s3 0 = 0 \<or> SSB0a s3 0 = SSB0c x"
    by (simp add: s3_def unfished_scale_def Let_def assms(2))
  have "unfished x yr s = unfished_SRR x 0 s3"
    by (simp add: unfished_def Let_def s1_def s2_def s3_def assms(2))
  then have "(heap (unfished x yr s) ! (length h + 2)) 0 =
      ln (5 * hc x) / (0.8 * SSB0a s3 0)"
    using ok3 by (simp add: unfished_SRR_def Let_def store_elem_def clones_ok_def)
  then show ?thesis using c by blast
qed

lemma popdyn_year_unfished:
  assumes "control x = 3" and "clones_ok h s"
  shows "\<exists>t. popdyn_year fresh x yr s = unfished x yr t \<and> clones_ok h t"
  unfolding popdyn_year_def Let_def
  apply (intro exI conjI)
   apply (simp add: assms(1))
  using assms(2) apply (simp add: clones_ok_def frame)
  done

lemma scenario_clone_updated:
  "(snd (popdynCPP scenario_fresh scenario_store (scenario\<lparr>control := 3\<rparr>)) ! 6) 0
     \<noteq> (scenario_store ! 3) 0"
proof -
  let ?x = "scenario\<lparr>control := 3\<rparr>"
  define s where "s = popdyn_loop scenario_fresh ?x 1 (popdyn_init scenario_store ?x)"
  have ok: "clones_ok scenario_store s"
    unfolding s_def by (rule clones_ok_loop)
  have K: "Suc 1 = pyears ?x - 1" by (simp add: scenario_def)
  have e: "snd (popdynCPP scenario_fresh scenario_store ?x) =
      heap (popdyn_year scenario_fresh ?x 1 s)"
    by (simp add: out_nth [OF K] popdyn_loop_Suc s_def)
  obtain t where t: "popdyn_year scenario_fresh ?x 1 s = unfished ?x 1 t"
      "clones_ok scenario_store t"
    using popdyn_year_unfished [OF _ ok, of ?x scenario_fresh 1] by auto
  have n: "nareas ?x = 1" by (simp add: scenario_def)
  have six: "length scenario_store + 2 = 6" by (simp add: scenario_store_def)
  have hc: "5 * hc ?x = 7/2" and S0: "SSB0c ?x = 1000" by (simp_all add: scenario_def)
  obtain c where c: "(heap (unfished ?x 1 t) ! 6) 0 = ln (7/2) / (0.8 * c)" "c = 0 \<or> c = 1000"
    using unfished_bRc2 [OF t(2) n, of 1] unfolding six hc S0 by blast
  have "ln (7/2 :: real) < 7/2" by (rule ln_less_self) simp
  then have "ln (7/2 :: real) / (0.8 * c) \<noteq> 1"
    using c(2) by auto
  moreover have "(scenario_store ! 3) 0 = 1"
    by (simp add: scenario_store_def cvec_def)
  ultimately show ?thesis
    unfolding e t(1) c(1) by simp
qed

text \<open>
  The fished scenario by hand: the vulnerable biomass of the initial year is \<open>150\<close>, the
  apical F of \<open>2\<close> is cut to \<open>0.8\<close>, so that \<open>Z = 1\<close>; year 1 has
  \<open>4 * 1000 * 0.7 * 150 / (1000 * 0.3 + 2.5 * 150) = 5600 / 9\<close> recruits and \<open>100 exp(-1)\<close>
  animals at age 1. No divisor is zero in the initial year or in the body of the loop
  for year 0, and the F of year 1 is cut to \<open>0.8\<close> again.
\<close>

lemma fished_consts:
  "nareas fished = 1" "maxage fished = 2" "pyears fished = 3" "control fished = 2"
  "SRrelc fished = 1" "plusgroup fished = 0" "hc fished = 0.7" "Spat_targc fished = 1"
  "maxF fished = 0.8" "Fapic fished = 2" "SSBpRc fished = 1"
  "Prec fished = cvec 1" "movc fished = (\<lambda>_. ccube 1)" "MPA fished = cmat 1"
  "Asize_c fished = cvec 1" "WtAge fished = cmat 1" "Vuln fished = cmat 1"
  "M_age fished = cmat 0.2"
  by (simp_all add: fished_def scenario_def)

lemma fished_init:
  "Narray (popdyn_init scenario_store fished) a 0 0 = (if a < 2 then start_N a 0 else 0)"
  "SBarray (popdyn_init scenario_store fished) a 0 0 = (if a < 2 then start_N a 0 else 0)"
  "Zarray (popdyn_init scenario_store fished) a 0 0 = (if a < 2 then 1 else 0)"
  "tempVec (popdyn_init scenario_store fished) 0 = 150"
  "heap (popdyn_init scenario_store fished) ! R0c2 (popdyn_init scenario_store fished)
     = cvec 1000"
  "heap (popdyn_init scenario_store fished) ! Suc 0 = cvec 1"
  by (simp_all add: popdyn_init_def clone_def Let_def Fmax_def Z_total_def clamp_def calc_F_def
      fished_def scenario_def scenario_store_def F_apical_def set_col_def set_year_def
      spat_dist_def pow_def init_area_def cmat_def cvec_def zcube_def zvec_def frame
      numeral_2_eq_2 numeral_3_eq_3 start_N_def)

lemma fished_year_1:
  "Narray (popdyn_year scenario_fresh fished 0 (popdyn_init scenario_store fished))
     0 (Suc 0) 0 = 5600 / 9"
  "Narray (popdyn_year scenario_fresh fished 0 (popdyn_init scenario_store fished))
     (Suc 0) (Suc 0) 0 = 100 * exp (- 1)"
  by (simp_all add: Narray_year set_year_def fished_consts fished_init popdynOneTScpp_apply
      oneTS_Nnext_apply oneTS_cell_def oneTS_base_def fill_apply numeral_2_eq_2 start_N_def
      cvec_def ccube_def)

lemma fished_tempVec_1:
  "tempVec (popdyn_year scenario_fresh fished 0 (popdyn_init scenario_store fished)) 0
     = 5600 / 9 + 100 * exp (- 1)"
proof -
  have "tempVec (popdyn_year scenario_fresh fished 0 (popdyn_init scenario_store fished)) 0 =
      (\<Sum>a<maxage fished.
         VBarray (popdyn_year scenario_fresh fished 0 (popdyn_init scenario_store fished))
           a (0 + 1) 0)"
    by (rule tempVec_year) (simp add: fished_consts)
  also have "\<dots> = (\<Sum>a<maxage fished.
         Narray (popdyn_year scenario_fresh fished 0 (popdyn_init scenario_store fished))
           a (0 + 1) 0 * WtAge fished a (0 + 1) * Vuln fished a (0 + 1))"
    by (rule sum.cong) (simp_all add: VBarray_year fished_consts(1))
  also have "\<dots> = 5600 / 9 + 100 * exp (- 1)"
    by (simp add: fished_consts numeral_2_eq_2 fished_year_1 cmat_def)
  finally show ?thesis .
qed

lemma fished_regular: "regular_run scenario_fresh scenario_store fished 1"
proof -
  have pos: "(0::real) < 5600 / 9 + 100 * exp (- 1)"
    by (simp add: add_pos_pos)
  have init: "init_regular scenario_store fished"
    by (simp add: init_regular_def spat_regular_def F_regular_def pow_regular_def pow_def
        fished_consts fished_init cvec_def)
  have year: "year_regular scenario_fresh fished 0 (popdyn_init scenario_store fished)"
    using pos
    by (simp add: year_regular_def Let_def spat_regular_def F_regular_def pow_regular_def
        pow_def closed_fracE_def closed_d1_apply spat_dist_def fished_consts fished_init
        fished_tempVec_1 numeral_2_eq_2 start_N_def cvec_def cmat_def)
  show ?thesis
    using init year by (simp add: regular_run_def popdyn_loop_0)
qed

lemma fished_fishdist_1:
  "fishdist (popdyn_year scenario_fresh fished 0 (popdyn_init scenario_store fished)) 0 = 1"
proof -
  have pos: "(0::real) < 5600 / 9 + 100 * exp (- 1)"
    by (simp add: add_pos_pos)
  show ?thesis
    using pos
    by (simp add: fishdist_year closed_fracE2_apply closed_fracE_def closed_d1_apply
        spat_dist_def pow_def fished_consts fished_tempVec_1 cmat_def)
qed

lemma fished_FM_1:
  "(fst (popdynCPP scenario_fresh scenario_store fished) ! 5) 0 1 0 = 4 / 5"
proof -
  have K: "1 + 1 = pyears fished - 1" by (simp add: fished_consts)
  have "(fst (popdynCPP scenario_fresh scenario_store fished) ! 5) 0 1 0 =
      FMarray (popdyn_loop scenario_fresh fished (1 + 1) (popdyn_init scenario_store fished)) 0 1 0"
    by (simp only: out_nth [OF K])
  also have "\<dots> =
      FMarray (popdyn_loop scenario_fresh fished 1 (popdyn_init scenario_store fished)) 0 1 0"
    by (rule loop_FM_later) simp
  also have "\<dots> =
      FMarray (popdyn_year scenario_fresh fished 0 (popdyn_init scenario_store fished))
        0 (Suc 0) 0"
    by (simp add: popdyn_loop_Suc popdyn_loop_0)
  also have "\<dots> = 4 / 5"
    by (simp add: FMarray_year_apical fished_consts fished_fishdist_1 cmat_def cvec_def)
  finally show ?thesis .
qed

text \<open>
  The scenario with a closure by hand: the vulnerable biomass of the initial year is
  \<open>200\<close> and \<open>80\<close> in the two areas, the divisors of the recruitment are
  \<open>300 + 2.5 * 200\<close> and \<open>300 + 2.5 * 80\<close>; the numbers of year 1 are positive in both
  areas, and so are the vulnerable biomass and the weights. The closure leaves the
  weight of area 1 as \<open>fracE\<close>, which lies strictly between 0 and 1.
\<close>

lemma closure_consts:
  "nareas closure = 2" "maxage closure = 2" "pyears closure = 3" "control closure = 1"
  "SRrelc closure = 1" "plusgroup closure = 0" "hc closure = 0.7" "Spat_targc closure = 1"
  "SSBpRc closure = 1" "Prec closure = cvec 1" "movc closure = (\<lambda>_. ex_mov)"
  "MPA closure = ex_MPA" "Asize_c closure = cvec 0.5" "WtAge closure = cmat 1"
  "Vuln closure = cmat 1"
  by (simp_all add: closure_def scenario_def)

lemma closure_init:
  "Narray (popdyn_init scenario_store closure) a 0 r = (if a < 2 \<and> r < 2 then ex_N2 a r else 0)"
  "SBarray (popdyn_init scenario_store closure) a 0 r = (if a < 2 \<and> r < 2 then ex_N2 a r else 0)"
  "tempVec (popdyn_init scenario_store closure) 0 = 200"
  "tempVec (popdyn_init scenario_store closure) (Suc 0) = 80"
  "heap (popdyn_init scenario_store closure) ! R0c2 (popdyn_init scenario_store closure)
     = cvec 1000"
  "heap (popdyn_init scenario_store closure) ! Suc 0 = cvec 1"
  by (auto simp add: popdyn_init_def clone_def Let_def Fmax_def Z_total_def clamp_def calc_F_def
      closure_def scenario_def scenario_store_def F_effort_def set_col_def set_year_def
      spat_dist_def pow_def init_area_def cmat_def cvec_def zcube_def zvec_def frame
      numeral_2_eq_2 numeral_3_eq_3 ex_N2_def)

lemma closure_year_1:
  assumes "a < 2" and "r < 2"
  shows "0 < Narray (popdyn_year scenario_fresh closure 0 (popdyn_init scenario_store closure))
           a (Suc 0) r"
  using assms
  by (auto simp add: Narray_year set_year_def closure_consts closure_init popdynOneTScpp_apply
      oneTS_Nnext_apply oneTS_cell_def oneTS_base_def fill_apply numeral_2_eq_2 ex_N2_def
      cvec_def ex_mov_def less_Suc_eq intro!: add_pos_pos)

lemma closure_tempVec_1:
  assumes "A < 2"
  shows "0 < tempVec (popdyn_year scenario_fresh closure 0 (popdyn_init scenario_store closure)) A"
proof -
  have "tempVec (popdyn_year scenario_fresh closure 0 (popdyn_init scenario_store closure)) A =
      (\<Sum>a<maxage closure.
         VBarray (popdyn_year scenario_fresh closure 0 (popdyn_init scenario_store closure))
           a (0 + 1) A)"
    by (rule tempVec_year) (simp add: closure_consts assms)
  also have "\<dots> = (\<Sum>a<maxage closure.
         Narray (popdyn_year scenario_fresh closure 0 (popdyn_init scenario_store closure))
           a (0 + 1) A * WtAge closure a (0 + 1) * Vuln closure a (0 + 1))"
    by (rule sum.cong) (simp_all add: VBarray_year closure_consts(1) assms)
  also have "\<dots> > 0"
    using closure_year_1 [OF _ assms]
    by (simp add: closure_consts numeral_2_eq_2 cmat_def add_pos_pos)
  finally show ?thesis .
qed

lemma closure_state_year:
  "closure_state = popdyn_year scenario_fresh closure 0 (popdyn_init scenario_store closure)"
  by (simp add: closure_state_def popdyn_loop_def)

lemma closure_state_tempVec:
  "0 < tempVec closure_state 0" "0 < tempVec closure_state (Suc 0)"
  by (simp_all add: closure_state_year closure_tempVec_1)

lemma closure_w_apply:
  "closure_w 0 = tempVec closure_state 0 / (tempVec closure_state 0 + tempVec closure_state (Suc 0))"
  "closure_w (Suc 0)
     = tempVec closure_state (Suc 0) / (tempVec closure_state 0 + tempVec closure_state (Suc 0))"
  using closure_state_tempVec
  by (simp_all add: closure_w_def spat_dist_def pow_def closure_consts numeral_2_eq_2)

lemma closure_fracE:
  "closed_fracE closure 0 closure_w = closure_w (Suc 0)"
  by (simp add: closed_fracE_def closed_d1_apply closure_consts numeral_2_eq_2 ex_MPA_def)

lemma closure_w_bounds: "0 < closure_w (Suc 0)" "closure_w (Suc 0) < 1"
  using closure_state_tempVec by (simp_all add: closure_w_apply add_pos_pos)

lemma closure_regular: "regular_run scenario_fresh scenario_store closure 1"
proof -
  have init: "init_regular scenario_store closure"
    by (simp add: init_regular_def spat_regular_def F_regular_def pow_regular_def pow_def
        closure_consts closure_init cvec_def numeral_2_eq_2 less_Suc_eq)
  have sb: "\<forall>A<nareas closure.
      (SRrelc closure = 1 \<longrightarrow>
         (heap (popdyn_init scenario_store closure) ! SSBpRc closure) A
           * (heap (popdyn_init scenario_store closure)
                ! R0c2 (popdyn_init scenario_store closure)) A * (1 - hc closure)
         + (5 * hc closure - 1)
           * (\<Sum>a<maxage closure. SBarray (popdyn_init scenario_store closure) a 0 A) \<noteq> 0)
      \<and> (plusgroup closure > 0 \<longrightarrow>
           1 - exp (- Zarray (popdyn_init scenario_store closure) (maxage closure - 1) 0 A) \<noteq> 0)"
    by (simp add: closure_consts closure_init cvec_def numeral_2_eq_2 less_Suc_eq ex_N2_def)
  have sp: "spat_regular closure (tempVec closure_state)"
    using closure_state_tempVec
    by (simp add: spat_regular_def pow_regular_def pow_def closure_consts numeral_2_eq_2
        less_Suc_eq)
  have fr: "closed_fracE closure 0 (spat_dist closure (tempVec closure_state)) \<noteq> 0"
    using closure_w_bounds(1) closure_fracE by (simp add: closure_w_def)
  have fa: "F_regular closure"
    by (simp add: F_regular_def closure_consts cvec_def)
  have year: "year_regular scenario_fresh closure 0 (popdyn_init scenario_store closure)"
    unfolding year_regular_def Let_def closure_state_year [symmetric]
    using sb sp fr fa by (simp add: closure_consts)
  show ?thesis
    using init year by (simp add: regular_run_def popdyn_loop_0)
qed

section \<open>Claims about popdynCPP\<close>

text \<open>
  C2, as amended. In a run that is regular up to year \<open>y\<close> (no division by zero and
  no power or logarithm outside its domain in the initial year and in the bodies of
  the loop before \<open>y\<close>), at every age and area of year \<open>y\<close> the fishing mortality and
  the retained fishing mortality of the output do not exceed \<open>maxF\<close>, and the total
  mortality of the output is the natural mortality \<open>M_age\<close> plus that fishing mortality
  (plus nothing under control 3 after the initial year); so, for \<open>maxF \<ge> 0\<close>, the total
  mortality does not exceed \<open>M_age + maxF\<close>.
\<close>

theorem fishing_mortality_capped:
  assumes "a < maxage x" and "y < pyears x" and "r < nareas x"
    and "regular_run fresh h x y"
  shows "(fst (popdynCPP fresh h x) ! 5) a y r \<le> maxF x
       \<and> (fst (popdynCPP fresh h x) ! 6) a y r \<le> maxF x
       \<and> (fst (popdynCPP fresh h x) ! 7) a y r =
           M_age x a y + (if control x = 3 \<and> 0 < y then 0
                          else (fst (popdynCPP fresh h x) ! 5) a y r)
       \<and> (0 \<le> maxF x \<longrightarrow> (fst (popdynCPP fresh h x) ! 7) a y r \<le> M_age x a y + maxF x)"
proof -
  define K where "K = pyears x - 1"
  define s where "s = popdyn_loop fresh x K (popdyn_init h x)"
  have y: "y \<le> K" using assms(2) by (simp add: K_def)
  have FM: "FMarray s a y r \<le> maxF x" and FMret: "FMretarray s a y r \<le> maxF x"
    unfolding s_def using loop_FM_clamped [of fresh x K h a y r] by simp_all
  have Z: "Zarray s a y r =
      M_age x a y + (if control x = 3 \<and> 0 < y then 0 else FMarray s a y r)"
    unfolding s_def by (rule loop_Zarray [OF assms(1,3) y])
  have "Zarray s a y r \<le> M_age x a y + maxF x" if "0 \<le> maxF x"
    using Z FM that by (simp split: if_splits)
  then show ?thesis
    using FM FMret Z by (simp add: out_nth [OF K_def] s_def [symmetric])
qed

text \<open>
  C2 as amended, in the fished scenario at age 0 of year 1, where the run is regular and
  the cap binds: the F of \<open>2\<close> is cut to \<open>maxF = 0.8\<close>, and the total mortality is
  \<open>0.2 + 0.8\<close>.
\<close>

theorem fishing_mortality_capped_witness:
  "regular_run scenario_fresh scenario_store fished 1
   \<and> (fst (popdynCPP scenario_fresh scenario_store fished) ! 5) 0 1 0 = maxF fished
   \<and> (fst (popdynCPP scenario_fresh scenario_store fished) ! 6) 0 1 0 \<le> maxF fished
   \<and> (fst (popdynCPP scenario_fresh scenario_store fished) ! 7) 0 1 0
       = M_age fished 0 1 + (fst (popdynCPP scenario_fresh scenario_store fished) ! 5) 0 1 0
   \<and> (fst (popdynCPP scenario_fresh scenario_store fished) ! 7) 0 1 0
       \<le> M_age fished 0 1 + maxF fished"
proof -
  have 1: "0 < maxage fished" "1 < pyears fished" "0 < nareas fished"
    by (simp_all add: fished_consts)
  show ?thesis
    using fishing_mortality_capped [OF 1 fished_regular] fished_FM_1 fished_regular
    by (simp add: fished_consts)
qed

text \<open>
  C2 as stated fails: in the fished scenario (control 2, apical F of \<open>2\<close>), whose
  initial year is regular (it divides by the vulnerable biomass \<open>150\<close> and the area size
  \<open>1\<close>), the fishing mortality of the initial year is cut to \<open>maxF = 0.8\<close> and the total
  mortality is \<open>0.2 + 0.8 = 1\<close>, above \<open>maxF\<close>.
\<close>

theorem total_mortality_above_cap:
  "init_regular scenario_store fished
   \<and> \<not> (fst (popdynCPP scenario_fresh scenario_store fished) ! 7) 0 0 0 \<le> maxF fished"
proof -
  have init: "init_regular scenario_store fished"
    using fished_regular by (simp add: regular_run_def)
  have K: "0 + 2 = pyears fished - 1" by (simp add: fished_consts)
  have "Zarray (popdyn_loop scenario_fresh fished (0 + 2)
           (popdyn_init scenario_store fished)) 0 0 0 =
        Zarray (popdyn_loop scenario_fresh fished 0 (popdyn_init scenario_store fished)) 0 0 0"
    by (rule loop_Zarray_later) simp
  also have "\<dots> = 1"
    by (simp add: popdyn_loop_0 fished_init)
  finally show ?thesis
    using init by (simp add: out_nth [OF K] fished_consts)
qed

text \<open>
  C8, as amended. Under control 3 with \<open>maxF \<ge> 0\<close>, in every year, age and area the
  fishing mortality and the retained fishing mortality of the output are zero and the
  total mortality is the natural mortality \<open>M_age\<close>.
\<close>

theorem unfished_no_fishing_mortality:
  assumes "control x = 3" and "0 \<le> maxF x"
    and "a < maxage x" and "y < pyears x" and "r < nareas x"
  shows "(fst (popdynCPP fresh h x) ! 5) a y r = 0
       \<and> (fst (popdynCPP fresh h x) ! 6) a y r = 0
       \<and> (fst (popdynCPP fresh h x) ! 7) a y r = M_age x a y"
proof -
  define K where "K = pyears x - 1"
  define s where "s = popdyn_loop fresh x K (popdyn_init h x)"
  have y: "y \<le> K" using assms(4) by (simp add: K_def)
  have FM: "FMarray s = zcube" and FMret: "FMretarray s = zcube"
    unfolding s_def using loop_FM_unfished [OF assms(1,2)] by blast+
  have "Zarray s a y r =
      M_age x a y + (if control x = 3 \<and> 0 < y then 0 else FMarray s a y r)"
    unfolding s_def by (rule loop_Zarray [OF assms(3,5) y])
  then have "Zarray s a y r = M_age x a y"
    by (simp add: FM zcube_def)
  then show ?thesis
    by (simp add: out_nth [OF K_def] s_def [symmetric] FM FMret zcube_def)
qed

text \<open>C8 as amended, in the scenario under control 3, at age 1 of year 2.\<close>

theorem unfished_no_fishing_mortality_witness:
  "(fst (popdynCPP scenario_fresh scenario_store (scenario\<lparr>control := 3\<rparr>)) ! 5) 1 2 0 = 0
   \<and> (fst (popdynCPP scenario_fresh scenario_store (scenario\<lparr>control := 3\<rparr>)) ! 6) 1 2 0 = 0
   \<and> (fst (popdynCPP scenario_fresh scenario_store (scenario\<lparr>control := 3\<rparr>)) ! 7) 1 2 0
       = M_age (scenario\<lparr>control := 3\<rparr>) 1 2"
  using unfished_no_fishing_mortality [of "scenario\<lparr>control := 3\<rparr>" 1 2 0
      scenario_fresh scenario_store]
  by (simp add: scenario_def)

text \<open>
  C8 as stated fails: the Fmax condition of the initial year runs under every
  control, on the whole cube; with \<open>maxF = -1\<close> it turns the zero fishing mortality of
  control 3 into \<open>-1\<close>.
\<close>

theorem unfished_negative_cap:
  "(fst (popdynCPP scenario_fresh scenario_store (scenario\<lparr>control := 3, maxF := - 1\<rparr>)) ! 5)
      0 0 0 \<noteq> 0"
proof -
  let ?x = "scenario\<lparr>control := 3, maxF := - 1\<rparr>"
  have K: "0 + 2 = pyears ?x - 1" by (simp add: scenario_def)
  have "FMarray (popdyn_loop scenario_fresh ?x (0 + 2)
           (popdyn_init scenario_store ?x)) 0 0 0 =
        FMarray (popdyn_loop scenario_fresh ?x 0 (popdyn_init scenario_store ?x)) 0 0 0"
    by (rule loop_FM_later) simp
  also have "\<dots> = clamp (maxF ?x) zcube 0 0 0"
    by (simp add: popdyn_loop_0 FM_init_no_fishing)
  also have "\<dots> = - 1"
    by (simp add: clamp_def zcube_def)
  finally show ?thesis by (simp add: out_nth [OF K])
qed

text \<open>
  C4, as amended. For every area and every age class \<open>a \<ge> 1\<close>, except the final age
  class when the plus group is on, the numbers at age \<open>a\<close> before movement are the input
  numbers at age \<open>a - 1\<close> times \<open>exp(-Z(a - 1))\<close>. In particular, in a projection with
  one area, two ages, no plus group, natural mortality \<open>0.2\<close> at age 0 of year \<open>y\<close> and no
  fishing mortality there, the numbers at age 1 in year \<open>y + 1\<close> are the numbers at age 0
  in year \<open>y\<close> times \<open>exp(-0.2)\<close> (all animals of the one area stay in it).
\<close>

theorem ageing_survival:
  "(A < n \<and> 1 \<le> a \<and> a < m \<and> (pg \<le> 0 \<or> a < m - 1) \<longrightarrow>
      oneTS_Nnext fresh n m SSB N Z P h R S aR bR SR pg a A =
      N (a - 1) A * exp (- Z (a - 1) A))
   \<and> (nareas x = 1 \<and> maxage x = 2 \<and> plusgroup x \<le> 0 \<and> M_age x 0 y = 0.2
        \<and> (fst (popdynCPP fresh' h' x) ! 5) 0 y 0 = 0 \<and> movc x y 1 0 0 = 1
        \<and> y + 1 < pyears x \<longrightarrow>
      (fst (popdynCPP fresh' h' x) ! 0) 1 (y + 1) 0 =
      (fst (popdynCPP fresh' h' x) ! 0) 0 y 0 * exp (- 0.2))"
  using Nnext_ageing [of A n a m pg fresh SSB N Z P h R S aR bR SR]
    scenario_age1 [of x y fresh' h']
  by blast

text \<open>
  C4 as amended: at age 1 of three in the second of two areas, with the plus group
  on; and in the scenario, from year 1 to year 2.
\<close>

theorem ageing_survival_witness:
  "oneTS_Nnext zmat 2 3 (cvec 10) (cmat 100) (cmat 0.2) 1 0.7 (cvec 1000) (cvec 1) (cvec 1)
      (cvec 1) 2 1 1 1 = cmat 100 (1 - 1) 1 * exp (- cmat 0.2 (1 - 1) 1)
   \<and> (fst (popdynCPP scenario_fresh scenario_store scenario) ! 0) 1 (1 + 1) 0 =
     (fst (popdynCPP scenario_fresh scenario_store scenario) ! 0) 0 1 0 * exp (- 0.2)"
  using ageing_survival [of 1 2 1 3 1 zmat "cvec 10" "cmat 100" "cmat 0.2" 1 "0.7" "cvec 1000"
      "cvec 1" "cvec 1" "cvec 1" 2 scenario 1 scenario_fresh scenario_store]
    scenario_no_fishing [of 1]
  by (simp add: scenario_def cmat_def ccube_def)

text \<open>
  C4 as stated fails: with two ages and the plus group on, the numbers at age 1
  before movement are \<open>100 exp(-0.2) / (1 - exp(-0.2))\<close>, not \<open>100 exp(-0.2)\<close>.
\<close>

theorem plusgroup_changes_final_age:
  "oneTS_Nnext zmat 1 2 (cvec 10) start_N (cmat 0.2) 1 0.7 (cvec 1000) (cvec 1) (cvec 1)
      (cvec 1) 1 1 1 0 \<noteq> start_N (1 - 1) 0 * exp (- cmat 0.2 (1 - 1) 0)"
proof -
  have "(100::real) * exp (- (1/5)) / (1 - exp (- (1/5))) \<noteq> 100 * exp (- (1/5))"
  proof
    assume "(100::real) * exp (- (1/5)) / (1 - exp (- (1/5))) = 100 * exp (- (1/5))"
    moreover have "(1::real) - exp (- (1/5)) \<noteq> 0" by simp
    ultimately have "(100::real) * exp (- (1/5)) = 100 * exp (- (1/5)) * (1 - exp (- (1/5)))"
      by (simp add: divide_eq_eq)
    then have "exp (- (1/5)) * exp (- (1/5)) = (0::real)" by (simp add: algebra_simps)
    then show False by simp
  qed
  then show ?thesis
    by (simp add: oneTS_Nnext_apply oneTS_cell_def oneTS_base_def start_N_def cmat_def)
qed

text \<open>
  C5. In the year after \<open>yr\<close> of a projection that is regular up to that year (no
  division by zero, and so \<open>fracE\<close> not zero, and no power outside its domain), the
  share of effort of area \<open>A\<close> that
  \<open>popdynCPP\<close> uses (\<open>fishdist\<close>, when the body of the loop has run for \<open>yr\<close>) is the
  closure-masked weight \<open>d1(A)\<close> times \<open>(fracE + (1 - fracE)) / fracE\<close>, where \<open>d1(A)\<close> is
  the closure fraction \<open>MPA(yr, A)\<close> times the normalized weight \<open>w(A)\<close>, the vulnerable
  biomass of the area to the power \<open>Spat_targc\<close> over the sum of these powers, and
  \<open>fracE\<close> is the sum of the \<open>d1\<close>. When \<open>fracE > 0\<close> the shares sum to 1 over the areas.
\<close>

theorem effort_shares_after_closures:
  assumes "yr + 1 < pyears x" and "A < nareas x"
    and "regular_run fresh h x (yr + 1)"
    and "s = popdyn_loop fresh x (yr + 1) (popdyn_init h x)"
    and "w = spat_dist x (tempVec s)"
    and "fracE = closed_fracE x yr w"
  shows "tempVec s A = (\<Sum>a<maxage x. VBarray s a (yr + 1) A)
       \<and> w A = pow (tempVec s A) (Spat_targc x)
                 / (\<Sum>B<nareas x. pow (tempVec s B) (Spat_targc x))
       \<and> closed_d1 x yr w A = MPA x yr A * w A
       \<and> fracE = (\<Sum>B<nareas x. closed_d1 x yr w B)
       \<and> fishdist s A = closed_d1 x yr w A * ((fracE + (1 - fracE)) / fracE)
       \<and> (fracE > 0 \<longrightarrow> (\<Sum>B<nareas x. fishdist s B) = 1)"
proof -
  have s: "s = popdyn_year fresh x yr (popdyn_loop fresh x yr (popdyn_init h x))"
    by (simp add: assms(4) popdyn_loop_Suc)
  have tv: "tempVec s A = (\<Sum>a<maxage x. VBarray s a (yr + 1) A)"
    unfolding s by (rule tempVec_year [OF assms(2)])
  have fd: "fishdist s = closed_fracE2 x yr w"
    unfolding assms(5) s by (rule fishdist_year)
  have share: "fishdist s A = closed_d1 x yr w A * ((fracE + (1 - fracE)) / fracE)"
    using assms(2) by (simp add: fd closed_fracE2_apply assms(6))
  have total: "(\<Sum>B<nareas x. fishdist s B) = 1" if "fracE > 0"
    using that closed_fracE2_sum [of x yr w] by (simp add: fd assms(6))
  have wA: "w A = pow (tempVec s A) (Spat_targc x)
                 / (\<Sum>B<nareas x. pow (tempVec s B) (Spat_targc x))"
    by (simp add: assms(5) spat_dist_def)
  have d1: "closed_d1 x yr w A = MPA x yr A * w A"
    using assms(2) by (simp add: closed_d1_apply)
  have fr: "fracE = (\<Sum>B<nareas x. closed_d1 x yr w B)"
    by (simp add: assms(6) closed_fracE_def)
  show ?thesis
    using tv wA d1 fr share total by blast
qed

text \<open>
  C5 in the scenario with a closure, in year 1: the run is regular, \<open>fracE\<close> is the
  weight of the open area 1, strictly between 0 and 1, the weight of the closed area 0
  is its part of the vulnerable biomass and positive, and the final shares are \<open>0\<close> for
  the closed area and \<open>1\<close> for the open one, which sum to 1.
\<close>

theorem effort_shares_after_closures_witness:
  "regular_run scenario_fresh scenario_store closure 1
   \<and> closed_fracE closure 0 closure_w = closure_w 1
   \<and> 0 < closed_fracE closure 0 closure_w \<and> closed_fracE closure 0 closure_w < 1
   \<and> closure_w 0 = tempVec closure_state 0 / (tempVec closure_state 0 + tempVec closure_state 1)
   \<and> 0 < closure_w 0
   \<and> fishdist closure_state 0 = 0
   \<and> fishdist closure_state 1 = 1
   \<and> (\<Sum>B<nareas closure. fishdist closure_state B) = 1"
proof -
  have 1: "0 + 1 < pyears closure" "0 < nareas closure" "1 < nareas closure"
    by (simp_all add: closure_consts)
  have 2: "regular_run scenario_fresh scenario_store closure (0 + 1)"
    using closure_regular by simp
  have 3: "closure_state
             = popdyn_loop scenario_fresh closure (0 + 1) (popdyn_init scenario_store closure)"
    by (simp add: closure_state_def)
  have w0: "0 < closure_w 0"
    using closure_state_tempVec by (simp add: closure_w_apply add_pos_pos)
  note a0 = effort_shares_after_closures [OF 1(1) 1(2) 2 3 closure_w_def refl]
  note a1 = effort_shares_after_closures [OF 1(1) 1(3) 2 3 closure_w_def refl]
  have pos: "0 < closed_fracE closure 0 closure_w"
    using closure_w_bounds(1) by (simp add: closure_fracE)
  have d0: "closed_d1 closure 0 closure_w 0 = MPA closure 0 0 * closure_w 0"
    using a0 by blast
  have s0: "fishdist closure_state 0 = closed_d1 closure 0 closure_w 0
      * ((closed_fracE closure 0 closure_w + (1 - closed_fracE closure 0 closure_w))
         / closed_fracE closure 0 closure_w)"
    using a0 by blast
  have d1: "closed_d1 closure 0 closure_w 1 = MPA closure 0 1 * closure_w 1"
    using a1 by blast
  have s1: "fishdist closure_state 1 = closed_d1 closure 0 closure_w 1
      * ((closed_fracE closure 0 closure_w + (1 - closed_fracE closure 0 closure_w))
         / closed_fracE closure 0 closure_w)"
    using a1 by blast
  have tot: "(\<Sum>B<nareas closure. fishdist closure_state B) = 1"
    using a1 pos by blast
  have f0: "fishdist closure_state 0 = 0"
    unfolding s0 d0 by (simp add: closure_consts ex_MPA_def)
  have f1: "fishdist closure_state 1 = 1"
    unfolding s1 d1 using closure_w_bounds(1)
    by (simp add: closure_consts ex_MPA_def closure_fracE)
  show ?thesis
    using f0 f1 tot w0 closure_w_bounds closure_regular
    by (simp add: closure_fracE closure_w_apply)
qed

text \<open>
  C6. For every \<open>yr\<close> with \<open>yr + 1 < pyears\<close>, the numbers of year \<open>yr + 1\<close> in the output
  are those of the call of \<open>popdynOneTScpp\<close> on the state \<open>s\<close> of year \<open>yr\<close> with the
  recruitment deviation \<open>Prec(yr + maxage)\<close>. The elements of \<open>Prec\<close> at other positions
  (those below \<open>maxage\<close> among them, so the element at \<open>yr\<close> for \<open>yr < maxage\<close>) are
  never read: any series that agrees with \<open>Prec\<close> at the positions \<open>y + maxage\<close> gives
  the same result.
\<close>

theorem recruitment_deviation_offset:
  assumes "yr + 1 < pyears x" and "a < maxage x" and "r < nareas x"
    and "s = popdyn_loop fresh x yr (popdyn_init h x)"
  shows "(fst (popdynCPP fresh h x) ! 0) a (yr + 1) r =
       popdynOneTScpp (fresh yr) (nareas x) (maxage x)
         (if yr > 0 \<and> control x = 3 then SSB0a s
          else fill (nareas x) (\<lambda>A. \<Sum>a<maxage x. SBarray s a yr A) zvec)
         (\<lambda>a r. Narray s a yr r) (\<lambda>a r. Zarray s a yr r)
         (Prec x (yr + maxage x)) (hc x) (heap s ! R0c2 s) (heap s ! SSBpRc x)
         (heap s ! aRc2 s) (heap s ! bRc2 s) (movc x yr) (SRrelc x) (plusgroup x) a r
     \<and> (\<forall>P. (\<forall>y. y + 1 < pyears x \<longrightarrow> P (y + maxage x) = Prec x (y + maxage x)) \<longrightarrow>
            popdynCPP fresh h (x\<lparr>Prec := P\<rparr>) = popdynCPP fresh h x)"
  using out_Narray_step [OF assms] popdynCPP_Prec [of x _ fresh h] by blast

text \<open>
  C6 in the scenario, for the step from year 0 to year 1; changing the elements 0
  and 1 of the deviations (two age classes) changes nothing.
\<close>

theorem recruitment_deviation_offset_witness:
  "(fst (popdynCPP scenario_fresh scenario_store scenario) ! 0) 1 (0 + 1) 0 =
       popdynOneTScpp (scenario_fresh 0) (nareas scenario) (maxage scenario)
         (if (0::nat) > 0 \<and> control scenario = 3
          then SSB0a (popdyn_loop scenario_fresh scenario 0 (popdyn_init scenario_store scenario))
          else fill (nareas scenario)
                 (\<lambda>A. \<Sum>a<maxage scenario.
                    SBarray (popdyn_loop scenario_fresh scenario 0
                              (popdyn_init scenario_store scenario)) a 0 A) zvec)
         (\<lambda>a r. Narray (popdyn_loop scenario_fresh scenario 0
                           (popdyn_init scenario_store scenario)) a 0 r)
         (\<lambda>a r. Zarray (popdyn_loop scenario_fresh scenario 0
                           (popdyn_init scenario_store scenario)) a 0 r)
         (Prec scenario (0 + maxage scenario)) (hc scenario)
         (heap (popdyn_loop scenario_fresh scenario 0 (popdyn_init scenario_store scenario))
            ! R0c2 (popdyn_loop scenario_fresh scenario 0 (popdyn_init scenario_store scenario)))
         (heap (popdyn_loop scenario_fresh scenario 0 (popdyn_init scenario_store scenario))
            ! SSBpRc scenario)
         (heap (popdyn_loop scenario_fresh scenario 0 (popdyn_init scenario_store scenario))
            ! aRc2 (popdyn_loop scenario_fresh scenario 0 (popdyn_init scenario_store scenario)))
         (heap (popdyn_loop scenario_fresh scenario 0 (popdyn_init scenario_store scenario))
            ! bRc2 (popdyn_loop scenario_fresh scenario 0 (popdyn_init scenario_store scenario)))
         (movc scenario 0) (SRrelc scenario) (plusgroup scenario) 1 0
   \<and> popdynCPP scenario_fresh scenario_store (scenario\<lparr>Prec := (cvec 1)(0 := 5, 1 := 7)\<rparr>)
       = popdynCPP scenario_fresh scenario_store scenario"
proof -
  have h: "\<forall>y. y + 1 < pyears scenario \<longrightarrow>
      ((cvec 1)(0 := 5, 1 := 7)) (y + maxage scenario) = Prec scenario (y + maxage scenario)"
    by (simp add: scenario_def cvec_def)
  have 1: "0 + 1 < pyears scenario" and 2: "1 < maxage scenario" and 3: "0 < nareas scenario"
    by (simp_all add: scenario_def)
  show ?thesis
    using recruitment_deviation_offset [OF 1 2 3 refl, of scenario_fresh scenario_store] h
    by blast
qed

text \<open>
  C7. If in every year \<open>0..pyears-1\<close> the effort times the catchability is the
  apical F, then control 1 and control 2 give the same fishing mortality at age and
  the same retained fishing mortality at age, whatever the number of areas and the
  closures; in particular with one area and no closures.
\<close>

theorem control_modes_agree:
  assumes "\<forall>y\<le>pyears x - 1. Effind x y * Qc x = Fapic x"
  shows "fst (popdynCPP fresh h (x\<lparr>control := 1\<rparr>)) ! 5 =
         fst (popdynCPP fresh h (x\<lparr>control := 2\<rparr>)) ! 5
       \<and> fst (popdynCPP fresh h (x\<lparr>control := 1\<rparr>)) ! 6 =
         fst (popdynCPP fresh h (x\<lparr>control := 2\<rparr>)) ! 6"
  using popdynCPP_modes [OF assms] by simp

text \<open>C7 in the scenario with effort 2, catchability 0.5 and apical F 1.\<close>

theorem control_modes_agree_witness:
  "fst (popdynCPP scenario_fresh scenario_store
          (scenario\<lparr>Effind := cvec 2, Qc := 0.5, Fapic := 1, control := 1\<rparr>)) ! 5 =
   fst (popdynCPP scenario_fresh scenario_store
          (scenario\<lparr>Effind := cvec 2, Qc := 0.5, Fapic := 1, control := 2\<rparr>)) ! 5
   \<and> fst (popdynCPP scenario_fresh scenario_store
          (scenario\<lparr>Effind := cvec 2, Qc := 0.5, Fapic := 1, control := 1\<rparr>)) ! 6 =
     fst (popdynCPP scenario_fresh scenario_store
          (scenario\<lparr>Effind := cvec 2, Qc := 0.5, Fapic := 1, control := 2\<rparr>)) ! 6"
  using control_modes_agree [of "scenario\<lparr>Effind := cvec 2, Qc := 0.5, Fapic := 1\<rparr>"
      scenario_fresh scenario_store]
  by (simp add: scenario_def cvec_def cmat_def)

text \<open>
  C9. Whatever the control, the vectors behind the handles \<open>R0c\<close>, \<open>aRc\<close> and \<open>bRc\<close>
  of the caller hold on return what they held at the call: the updates of control 3
  go to the clones, which are new vectors of the store.
\<close>

theorem caller_vectors_unchanged:
  assumes "R0c x < length h" and "aRc x < length h" and "bRc x < length h"
  shows "snd (popdynCPP fresh h x) ! R0c x = h ! R0c x
       \<and> snd (popdynCPP fresh h x) ! aRc x = h ! aRc x
       \<and> snd (popdynCPP fresh h x) ! bRc x = h ! bRc x"
proof -
  have "snd (popdynCPP fresh h x) ! p = h ! p" if "p < length h" for p
  proof -
    have "take (length h) (snd (popdynCPP fresh h x)) ! p = snd (popdynCPP fresh h x) ! p"
      using that by simp
    then show ?thesis by (simp add: store_unchanged)
  qed
  then show ?thesis using assms by simp
qed

text \<open>
  C9 in the scenario under control 3, where the handles are 0, 2 and 3 and the clone
  of \<open>bRc\<close> is at position 6: the caller's vectors are as they were, the clone is not.
\<close>

theorem caller_vectors_unchanged_witness:
  "snd (popdynCPP scenario_fresh scenario_store (scenario\<lparr>control := 3\<rparr>)) ! 0
     = scenario_store ! 0
   \<and> snd (popdynCPP scenario_fresh scenario_store (scenario\<lparr>control := 3\<rparr>)) ! 2
     = scenario_store ! 2
   \<and> snd (popdynCPP scenario_fresh scenario_store (scenario\<lparr>control := 3\<rparr>)) ! 3
     = scenario_store ! 3
   \<and> (snd (popdynCPP scenario_fresh scenario_store (scenario\<lparr>control := 3\<rparr>)) ! 6) 0
     \<noteq> (scenario_store ! 3) 0"
  using caller_vectors_unchanged [of "scenario\<lparr>control := 3\<rparr>" scenario_store scenario_fresh]
    scenario_clone_updated
  by (simp add: scenario_def scenario_store_def)

end
